theory Spec2Isabelle
  imports Complex_Main
begin

section \<open>JavaScript values used by index.ts\<close>

text \<open>
  JavaScript numbers are read as real numbers: the rounding of IEEE doubles and of the
  float32 elements of a \<^verbatim>\<open>Float32Array\<close> is not part of this development. A
  \<^verbatim>\<open>Float32Array\<close> is an object with identity, so it lives in a heap, addressed by
  a reference; its contents are a list of numbers whose length never changes.
\<close>

type_synonym f32array = "real list"

type_synonym ref = nat

record heap =
  cells :: "ref \<Rightarrow> f32array"
  fresh :: ref

text \<open>\<^verbatim>\<open>new Float32Array(...)\<close>: a new object, different from every object allocated before.\<close>

definition new_array :: "f32array \<Rightarrow> heap \<Rightarrow> ref \<times> heap" where
  "new_array xs h = (fresh h, h\<lparr>cells := (cells h)(fresh h := xs), fresh := Suc (fresh h)\<rparr>)"

text \<open>
  Element-wise stores \<^verbatim>\<open>dst[i] = v\<^sub>i\<close> into a typed array: a store at an index beyond
  the array's length is ignored, the elements that are not stored to keep their value,
  and the length stays what it was.
\<close>

definition overwrite :: "'a list \<Rightarrow> 'a list \<Rightarrow> 'a list" where
  "overwrite old new = take (length old) new @ drop (length new) old"

definition write_array :: "ref \<Rightarrow> f32array \<Rightarrow> heap \<Rightarrow> heap" where
  "write_array dst xs h = h\<lparr>cells := (cells h)(dst := overwrite (cells h dst) xs)\<rparr>"

subsection \<open>The wgpu-matrix library\<close>

text \<open>
  \<^verbatim>\<open>import {mat4, vec3} from "wgpu-matrix"\<close>: the library is not part of the repository,
  so its operations are a parameter. Each field gives the sixteen numbers an operation
  computes from the contents of its arguments; where index.ts passes a destination, the
  numbers are stored into that array and the array is returned, otherwise a new array
  is allocated.
\<close>

type_synonym vec3 = "real list"

record wgpu_matrix =
  mat4_create :: f32array
  mat4_identity :: f32array
  mat4_translate :: "f32array \<Rightarrow> vec3 \<Rightarrow> f32array"
  mat4_rotate :: "f32array \<Rightarrow> vec3 \<Rightarrow> real \<Rightarrow> f32array"
  mat4_multiply :: "f32array \<Rightarrow> f32array \<Rightarrow> f32array"
  mat4_perspective :: "real \<Rightarrow> real \<Rightarrow> real \<Rightarrow> real \<Rightarrow> f32array"

definition vec3_fromValues :: "real \<Rightarrow> real \<Rightarrow> real \<Rightarrow> vec3" where
  "vec3_fromValues x y z = [x, y, z]"

text \<open>Every \<^verbatim>\<open>mat4\<close> the library produces has sixteen elements.\<close>

definition mat4_lib :: "wgpu_matrix \<Rightarrow> bool" where
  "mat4_lib L \<longleftrightarrow>
     length (mat4_create L) = 16 \<and>
     length (mat4_identity L) = 16 \<and>
     (\<forall>m v. length (mat4_translate L m v) = 16) \<and>
     (\<forall>m v a. length (mat4_rotate L m v a) = 16) \<and>
     (\<forall>a b. length (mat4_multiply L a b) = 16) \<and>
     (\<forall>f a n z. length (mat4_perspective L f a n z) = 16)"

text \<open>
  The textbook reading of the library in real arithmetic, column-major (element
  \<open>4 * c + r\<close> is row \<open>r\<close> of column \<open>c\<close>): used for the concrete instances below.
\<close>

definition mul4 :: "f32array \<Rightarrow> f32array \<Rightarrow> f32array" where
  "mul4 a b = map (\<lambda>i. \<Sum>k\<leftarrow>[0, 1, 2, 3]. a ! (4 * k + i mod 4) * b ! (4 * (i div 4) + k)) [0..<16]"

definition translation4 :: "vec3 \<Rightarrow> f32array" where
  "translation4 v = [1, 0, 0, 0, 0, 1, 0, 0, 0, 0, 1, 0, v ! 0, v ! 1, v ! 2, 1]"

definition rotation4 :: "vec3 \<Rightarrow> real \<Rightarrow> f32array" where
  "rotation4 v a =
     (let n = sqrt (v ! 0 * v ! 0 + v ! 1 * v ! 1 + v ! 2 * v ! 2);
          x = v ! 0 / n; y = v ! 1 / n; z = v ! 2 / n;
          c = cos a; s = sin a; d = 1 - c
      in [x * x + (1 - x * x) * c, x * y * d + z * s, x * z * d - y * s, 0,
          x * y * d - z * s, y * y + (1 - y * y) * c, y * z * d + x * s, 0,
          x * z * d + y * s, y * z * d - x * s, z * z + (1 - z * z) * c, 0,
          0, 0, 0, 1])"

definition perspective4 :: "real \<Rightarrow> real \<Rightarrow> real \<Rightarrow> real \<Rightarrow> f32array" where
  "perspective4 fov aspect zNear zFar =
     (let f = tan (pi * 0.5 - 0.5 * fov); rangeInv = 1 / (zNear - zFar)
      in [f / aspect, 0, 0, 0,
          0, f, 0, 0,
          0, 0, zFar * rangeInv, -1,
          0, 0, zFar * zNear * rangeInv, 0])"

definition real_mat4 :: wgpu_matrix where
  "real_mat4 = \<lparr>
     mat4_create = replicate 16 0,
     mat4_identity = [1, 0, 0, 0, 0, 1, 0, 0, 0, 0, 1, 0, 0, 0, 0, 1],
     mat4_translate = (\<lambda>m v. mul4 m (translation4 v)),
     mat4_rotate = (\<lambda>m v a. mul4 m (rotation4 v a)),
     mat4_multiply = mul4,
     mat4_perspective = perspective4 \<rparr>"

section \<open>The transformation matrix\<close>

text \<open>
  \<^verbatim>\<open>const now = Date.now() / 5000\<close> and the axis
  \<^verbatim>\<open>vec3.fromValues(Math.sin(now), Math.cos(now), 0)\<close> of getTransformationMatrix;
  \<open>dateNow\<close> is the value \<^verbatim>\<open>Date.now()\<close> returns, the milliseconds since the epoch.
\<close>

definition now_of :: "real \<Rightarrow> real" where
  "now_of dateNow = dateNow / 5000"

definition rotationAxis :: "real \<Rightarrow> vec3" where
  "rotationAxis dateNow = vec3_fromValues (sin (now_of dateNow)) (cos (now_of dateNow)) 0"

text \<open>
  getTransformationMatrix is a closure of main: \<open>projectionMatrix\<close> and
  \<open>modelViewProjectionMatrix\<close> are the references main holds. It returns the reference
  \<open>modelViewProjectionMatrix\<close> and the heap after its stores.
\<close>

definition getTransformationMatrix ::
  "wgpu_matrix \<Rightarrow> ref \<Rightarrow> ref \<Rightarrow> real \<Rightarrow> heap \<Rightarrow> ref \<times> heap" where
  "getTransformationMatrix L projectionMatrix modelViewProjectionMatrix dateNow h0 =
     (let (viewMatrix, h1) = new_array (mat4_identity L) h0;
          h2 = write_array viewMatrix
                 (mat4_translate L (cells h1 viewMatrix) (vec3_fromValues 0 0 (-10))) h1;
          h3 = write_array viewMatrix
                 (mat4_rotate L (cells h2 viewMatrix) (rotationAxis dateNow) 1) h2;
          h4 = write_array modelViewProjectionMatrix
                 (mat4_multiply L (cells h3 projectionMatrix) (cells h3 viewMatrix)) h3
      in (modelViewProjectionMatrix, h4))"

text \<open>The matrix the code computes, as a value: projection times view.\<close>

definition viewMatrix_at :: "wgpu_matrix \<Rightarrow> real \<Rightarrow> f32array" where
  "viewMatrix_at L dateNow =
     mat4_rotate L (mat4_translate L (mat4_identity L) (vec3_fromValues 0 0 (-10)))
       (vec3_fromValues (sin (dateNow / 5000)) (cos (dateNow / 5000)) 0) 1"

definition mvp_at :: "wgpu_matrix \<Rightarrow> f32array \<Rightarrow> real \<Rightarrow> f32array" where
  "mvp_at L projection dateNow = mat4_multiply L projection (viewMatrix_at L dateNow)"

text \<open>
  The projection main computes once:
  \<^verbatim>\<open>mat4.perspective((2 * Math.PI) / 5, aspect, 1, 100.0)\<close>.
\<close>

definition projection_of :: "wgpu_matrix \<Rightarrow> real \<Rightarrow> f32array" where
  "projection_of L aspect = mat4_perspective L ((2 * pi) / 5) aspect 1 100"

text \<open>
  The spec's reading of the time: \<open>t = wall-clock seconds / 5000\<close>, the wall clock
  being \<open>dateNow\<close> milliseconds.
\<close>

definition spec_computeMVP :: "wgpu_matrix \<Rightarrow> real \<Rightarrow> real \<Rightarrow> f32array" where
  "spec_computeMVP L elapsedSeconds aspectRatio =
     (let t = elapsedSeconds / 5000
      in mat4_multiply L (mat4_perspective L ((2 * pi) / 5) aspectRatio 1 100)
           (mat4_rotate L (mat4_translate L (mat4_identity L) (vec3_fromValues 0 0 (-10)))
              (vec3_fromValues (sin t) (cos t) 0) 1))"

section \<open>The mesh module\<close>

text \<open>
  index.ts imports \<^verbatim>\<open>cubeVertexArray\<close>, \<^verbatim>\<open>cubeVertexSize\<close>, \<^verbatim>\<open>cubeUVOffset\<close>,
  \<^verbatim>\<open>cubePositionOffset\<close> and \<^verbatim>\<open>cubeVertexCount\<close> from \<^verbatim>\<open>./src/meshes/cube.js\<close>, a
  module of the repository that is not among the sources. The array is a parameter of
  \<open>main\<close>; the four constants and the construction check follow the spec.
\<close>

definition byteLength :: "f32array \<Rightarrow> nat" where
  "byteLength xs = 4 * length xs"

text \<open>
  Modelled from the spec: the constant \<open>cubePositionOffset\<close> of the missing module cube.js.
  A Vertex is \<open>{position: 4 \<times> float32, uv: 2 \<times> float32}\<close>, packed contiguously, and the
  offsets come from the record layout: the position is first.
\<close>

definition cubePositionOffset :: nat where
  "cubePositionOffset = 0"

text \<open>
  Modelled from the spec: the constant \<open>cubeUVOffset\<close> of the missing module cube.js. The
  uv follows the four float32 of the position.
\<close>

definition cubeUVOffset :: nat where
  "cubeUVOffset = 4 * 4"

text \<open>
  Modelled from the spec: the constant \<open>cubeVertexSize\<close> of the missing module cube.js. The
  stride is the size of one Vertex record exactly.
\<close>

definition cubeVertexSize :: nat where
  "cubeVertexSize = 4 * 4 + 2 * 4"

text \<open>
  Modelled from the spec: the constant \<open>cubeVertexCount\<close> of the missing module cube.js:
  36 vertices, 6 faces of 2 triangles of 3 vertices.
\<close>

definition cubeVertexCount :: nat where
  "cubeVertexCount = 36"

datatype mesh_error = MeshSizeMismatch nat nat

text \<open>
  Modelled from the spec: the construction of the Mesh Data of the missing module
  cube.js, which enforces \<open>byte sequence length = vertex count \<times> stride\<close> and fails at
  once when it is violated.
\<close>

definition mesh_construct :: "f32array \<Rightarrow> mesh_error + f32array" where
  "mesh_construct vertexData =
     (if byteLength vertexData = cubeVertexCount * cubeVertexSize then Inr vertexData
      else Inl (MeshSizeMismatch (byteLength vertexData) (cubeVertexCount * cubeVertexSize)))"

text \<open>The bytes a vertex attribute of a given format occupies.\<close>

definition format_size :: "string \<Rightarrow> nat" where
  "format_size f = (if f = ''float32x4'' then 16 else if f = ''float32x2'' then 8 else 0)"

section \<open>The GPU device\<close>

text \<open>
  GPU objects are created by the device and named by an identifier. Their descriptors are
  immutable; the contents of a buffer are device memory, a list of float32 elements
  (four bytes each). Byte offsets and sizes are kept in bytes, as index.ts passes them.
\<close>

type_synonym id = nat

datatype usage = VERTEX | UNIFORM | COPY_DST | RENDER_ATTACHMENT

record vertex_attribute =
  shaderLocation :: nat
  attr_offset :: nat
  attr_format :: string

record render_pipeline_descriptor =
  pipeline_layout :: string
  vertex_module :: id
  vertex_entryPoint :: string
  arrayStride :: nat
  attributes :: "vertex_attribute list"
  fragment_module :: id
  fragment_entryPoint :: string
  target_format :: string
  topology :: string
  cullMode :: string
  depthWriteEnabled :: bool
  depthCompare :: string
  depth_format :: string

datatype gpu_object =
    Buffer nat "usage list" bool
  | ShaderModule string
  | RenderPipeline render_pipeline_descriptor
  | Texture real real string "usage list"
  | CanvasTexture
  | TextureView id
  | BindGroupLayout id nat
  | BindGroup id "(nat \<times> id) list"
  | Invalid

record render_pass_descriptor =
  color_view :: "id option"
  clearValue :: "real \<times> real \<times> real \<times> real"
  loadOp :: string
  storeOp :: string
  depth_view :: id
  depthClearValue :: real
  depthLoadOp :: string
  depthStoreOp :: string

datatype command =
    BeginRenderPass render_pass_descriptor
  | SetPipeline id
  | SetBindGroup nat id
  | SetVertexBuffer nat id
  | Draw nat
  | End

text \<open>
  The calls of main on the device, in program order. index.ts has no error handling of
  its own, so a call can fail in two ways. It can throw, and the exception leaves main at
  that call. Or it can fail the way WebGPU reports a shader that does not compile, or a
  pipeline, texture, view or bind group that does not validate, or an object made from
  an invalid one: the call returns an invalid object, the device reports a validation
  error, and no exception is thrown.
\<close>

datatype call =
    CreateVerticesBuffer
  | SetMappedVertices
  | Unmap
  | CreateVertexShader
  | CreateFragmentShader
  | CreateRenderPipeline
  | CreateDepthTexture
  | CreateUniformBuffer
  | GetBindGroupLayout
  | CreateBindGroup
  | CreateDepthView

text \<open>
  The calls whose order matters, as the program makes them, and the validation errors the
  device reports.
\<close>

datatype event =
    Fetch string
  | Configure string string
  | QueueWriteBuffer id nat f32array
  | GetCurrentTexture id
  | QueueSubmit "command list list"
  | RequestAnimationFrame
  | ConsoleLog
  | ValidationError call

text \<open>What one draw call reads when the queue executes it.\<close>

record draw_call =
  drawn_pass :: "render_pass_descriptor option"
  drawn_pipeline :: "id option"
  drawn_group0 :: "(nat \<times> f32array) list"
  drawn_vertices :: "f32array option"
  drawn_count :: nat

record world =
  js_heap :: heap
  objects :: "id \<Rightarrow> gpu_object option"
  mem :: "id \<Rightarrow> f32array"
  next_id :: id
  events :: "event list"
  rendered :: "draw_call list"
  pending :: nat

definition empty_world :: world where
  "empty_world = \<lparr> js_heap = \<lparr>cells = (\<lambda>_. []), fresh = 0\<rparr>, objects = (\<lambda>_. None),
     mem = (\<lambda>_. []), next_id = 0, events = [], rendered = [], pending = 0 \<rparr>"

definition emit :: "event \<Rightarrow> world \<Rightarrow> world" where
  "emit e w = w\<lparr>events := events w @ [e]\<rparr>"

definition create :: "gpu_object \<Rightarrow> world \<Rightarrow> id \<times> world" where
  "create obj w = (next_id w, w\<lparr>objects := (objects w)(next_id w := Some obj), next_id := Suc (next_id w)\<rparr>)"

text \<open>\<^verbatim>\<open>device.createBuffer\<close>: the new buffer is filled with zeros.\<close>

definition createBuffer :: "nat \<Rightarrow> usage list \<Rightarrow> bool \<Rightarrow> world \<Rightarrow> id \<times> world" where
  "createBuffer sz us mapped w =
     (let (b, w') = create (Buffer sz us mapped) w
      in (b, w'\<lparr>mem := (mem w')(b := replicate (sz div 4) 0)\<rparr>))"

text \<open>
  \<^verbatim>\<open>new Float32Array(buffer.getMappedRange()).set(data)\<close> on a buffer mapped at creation:
  element-wise stores into the mapped range.
\<close>

definition set_mapped :: "id \<Rightarrow> f32array \<Rightarrow> world \<Rightarrow> unit \<times> world" where
  "set_mapped b xs w = ((), w\<lparr>mem := (mem w)(b := overwrite (mem w b) xs)\<rparr>)"

text \<open>
  \<^verbatim>\<open>queue.writeBuffer(buffer, bufferOffset, data, dataOffset, size)\<close>, where \<open>xs\<close> is the
  region of \<open>data\<close> the last two arguments select. The write is validated: the buffer is
  a buffer with usage \<open>COPY_DST\<close>, offset and size are multiples of four, and the region
  fits. An invalid write changes nothing. The queue executes its work in the order it
  is enqueued, so the memory after a call is the memory after everything enqueued so far.
\<close>

definition write_valid :: "gpu_object option \<Rightarrow> nat \<Rightarrow> f32array \<Rightarrow> bool" where
  "write_valid obj bufferOffset xs =
     (case obj of
        Some (Buffer sz us mapped) \<Rightarrow>
          COPY_DST \<in> set us \<and> bufferOffset mod 4 = 0 \<and> bufferOffset + byteLength xs \<le> sz
      | _ \<Rightarrow> False)"

definition write_at :: "nat \<Rightarrow> f32array \<Rightarrow> f32array \<Rightarrow> f32array" where
  "write_at i xs old = take i old @ xs @ drop (i + length xs) old"

definition queue_writeBuffer :: "id \<Rightarrow> nat \<Rightarrow> f32array \<Rightarrow> world \<Rightarrow> world" where
  "queue_writeBuffer b bufferOffset xs w =
     (let w' = emit (QueueWriteBuffer b bufferOffset xs) w
      in if write_valid (objects w b) bufferOffset xs
         then w'\<lparr>mem := (mem w)(b := write_at (bufferOffset div 4) xs (mem w b))\<rparr>
         else w')"

text \<open>
  \<^verbatim>\<open>context.getCurrentTexture().createView()\<close>: the surface hands out a new texture for
  the frame, and the view is a new object.
\<close>

definition getCurrentTexture :: "world \<Rightarrow> id \<times> world" where
  "getCurrentTexture w = (let (t, w') = create CanvasTexture w in (t, emit (GetCurrentTexture t) w'))"

definition createView :: "id \<Rightarrow> world \<Rightarrow> id \<times> world" where
  "createView t w = create (TextureView t) w"

subsection \<open>Executing a command buffer\<close>

text \<open>
  The encoder state while a command buffer is recorded. A command that names an invalid
  object, or an object of the wrong kind, makes the command buffer invalid, and the queue
  executes nothing of an invalid command buffer.
\<close>

record pass_state =
  cur_pass :: "render_pass_descriptor option"
  cur_pipeline :: "id option"
  cur_groups :: "nat \<Rightarrow> id option"
  cur_vertex_buffers :: "nat \<Rightarrow> id option"
  encoder_valid :: bool

definition no_pass :: pass_state where
  "no_pass = \<lparr> cur_pass = None, cur_pipeline = None, cur_groups = (\<lambda>_. None),
     cur_vertex_buffers = (\<lambda>_. None), encoder_valid = True \<rparr>"

definition is_view :: "world \<Rightarrow> id \<Rightarrow> bool" where
  "is_view w v = (case objects w v of Some (TextureView t) \<Rightarrow> True | _ \<Rightarrow> False)"

definition is_pipeline :: "world \<Rightarrow> id \<Rightarrow> bool" where
  "is_pipeline w p = (case objects w p of Some (RenderPipeline d) \<Rightarrow> True | _ \<Rightarrow> False)"

definition is_bind_group :: "world \<Rightarrow> id \<Rightarrow> bool" where
  "is_bind_group w g = (case objects w g of Some (BindGroup l entries) \<Rightarrow> True | _ \<Rightarrow> False)"

definition is_vertex_buffer :: "world \<Rightarrow> id \<Rightarrow> bool" where
  "is_vertex_buffer w b =
     (case objects w b of Some (Buffer sz us mapped) \<Rightarrow> VERTEX \<in> set us | _ \<Rightarrow> False)"

definition pass_valid :: "world \<Rightarrow> render_pass_descriptor \<Rightarrow> bool" where
  "pass_valid w d \<longleftrightarrow>
     (case color_view d of None \<Rightarrow> False | Some v \<Rightarrow> is_view w v) \<and> is_view w (depth_view d)"

definition group_data :: "world \<Rightarrow> id option \<Rightarrow> (nat \<times> f32array) list" where
  "group_data w g =
     (case g of
        None \<Rightarrow> []
      | Some gid \<Rightarrow>
          (case objects w gid of
             Some (BindGroup l entries) \<Rightarrow> map (\<lambda>(binding, b). (binding, mem w b)) entries
           | _ \<Rightarrow> []))"

fun exec_command :: "world \<Rightarrow> pass_state \<times> draw_call list \<Rightarrow> command \<Rightarrow> pass_state \<times> draw_call list" where
  "exec_command w (ps, ds) (BeginRenderPass d) =
     (no_pass\<lparr>cur_pass := Some d, encoder_valid := encoder_valid ps \<and> pass_valid w d\<rparr>, ds)"
| "exec_command w (ps, ds) (SetPipeline p) =
     (ps\<lparr>cur_pipeline := Some p, encoder_valid := encoder_valid ps \<and> is_pipeline w p\<rparr>, ds)"
| "exec_command w (ps, ds) (SetBindGroup i g) =
     (ps\<lparr>cur_groups := (cur_groups ps)(i := Some g),
         encoder_valid := encoder_valid ps \<and> is_bind_group w g\<rparr>, ds)"
| "exec_command w (ps, ds) (SetVertexBuffer i b) =
     (ps\<lparr>cur_vertex_buffers := (cur_vertex_buffers ps)(i := Some b),
         encoder_valid := encoder_valid ps \<and> is_vertex_buffer w b\<rparr>, ds)"
| "exec_command w (ps, ds) (Draw n) =
     (ps\<lparr>encoder_valid := encoder_valid ps \<and> cur_pipeline ps \<noteq> None\<rparr>,
      ds @ [\<lparr> drawn_pass = cur_pass ps, drawn_pipeline = cur_pipeline ps,
                  drawn_group0 = group_data w (cur_groups ps 0),
                  drawn_vertices = map_option (mem w) (cur_vertex_buffers ps 0),
                  drawn_count = n \<rparr>])"
| "exec_command w (ps, ds) End = (no_pass\<lparr>encoder_valid := encoder_valid ps\<rparr>, ds)"

definition exec_command_buffer :: "world \<Rightarrow> command list \<Rightarrow> draw_call list" where
  "exec_command_buffer w cmds =
     (let r = foldl (exec_command w) (no_pass, []) cmds
      in if encoder_valid (fst r) then snd r else [])"

text \<open>
  \<^verbatim>\<open>queue.submit(commandBuffers)\<close>: the command buffers execute, in order, against the
  memory left by the work enqueued before them.
\<close>

definition queue_submit :: "command list list \<Rightarrow> world \<Rightarrow> world" where
  "queue_submit cbs w =
     (emit (QueueSubmit cbs) w)\<lparr>rendered := rendered w @ concat (map (exec_command_buffer w) cbs)\<rparr>"

text \<open>\<^verbatim>\<open>requestAnimationFrame(frame)\<close>: one more callback waits for the next refresh.\<close>

definition requestAnimationFrame :: "world \<Rightarrow> world" where
  "requestAnimationFrame w = (emit RequestAnimationFrame w)\<lparr>pending := Suc (pending w)\<rparr>"

section \<open>main\<close>

record canvas =
  width :: real
  height :: real

text \<open>
  \<^verbatim>\<open>interface IMain\<close>. The fields \<open>device\<close> and \<open>context\<close> are the device and the surface
  of the \<^typ>\<open>world\<close>.
\<close>

record props =
  basicVertWgsl :: string
  vertexPositionColorWgsl :: string
  textureFormat :: string
  canvas :: canvas

datatype error = Error string | Thrown call | Rejected string

text \<open>A call that creates no object: it returns or throws.\<close>

definition attempt ::
  "(call \<Rightarrow> bool) \<Rightarrow> call \<Rightarrow> (world \<Rightarrow> 'a \<times> world) \<Rightarrow> world \<Rightarrow> (error + 'a) \<times> world" where
  "attempt throws c f w = (if throws c then (Inl (Thrown c), w) else (Inr (fst (f w)), snd (f w)))"

text \<open>
  A call that creates an object: it throws, or it fails without throwing (by itself, or
  because one of the objects \<open>deps\<close> it is made from is invalid) and returns a new invalid
  object while the device reports a validation error, or it returns the object \<open>f\<close>
  creates. main goes on in the last two cases alike.
\<close>

definition attempt_create ::
  "(call \<Rightarrow> bool) \<Rightarrow> (call \<Rightarrow> bool) \<Rightarrow> call \<Rightarrow> id list \<Rightarrow> (world \<Rightarrow> id \<times> world) \<Rightarrow>
   world \<Rightarrow> (error + id) \<times> world" where
  "attempt_create throws invalid c deps f w =
     (if throws c then (Inl (Thrown c), w)
      else if invalid c \<or> list_ex (\<lambda>d. objects w d = Some Invalid) deps
      then (Inr (fst (create Invalid w)), emit (ValidationError c) (snd (create Invalid w)))
      else (Inr (fst (f w)), snd (f w)))"

definition and_then ::
  "(world \<Rightarrow> (error + 'a) \<times> world) \<Rightarrow> ('a \<Rightarrow> world \<Rightarrow> (error + 'b) \<times> world) \<Rightarrow>
   world \<Rightarrow> (error + 'b) \<times> world" where
  "and_then m f w = (case m w of (Inl e, w') \<Rightarrow> (Inl e, w') | (Inr x, w') \<Rightarrow> f x w')"

text \<open>The variables of main that the closures \<open>getTransformationMatrix\<close> and \<open>frame\<close> capture.\<close>

record scope =
  verticesBuffer :: id
  pipeline :: id
  depthTexture :: id
  uniformBuffer :: id
  uniformBindGroup :: id
  renderPassDescriptor :: render_pass_descriptor
  projectionMatrix :: ref
  modelViewProjectionMatrix :: ref

definition pipeline_descriptor :: "props \<Rightarrow> id \<Rightarrow> id \<Rightarrow> render_pipeline_descriptor" where
  "pipeline_descriptor p vertexModule fragmentModule = \<lparr>
     pipeline_layout = ''auto'',
     vertex_module = vertexModule,
     vertex_entryPoint = ''main'',
     arrayStride = cubeVertexSize,
     attributes = [
       \<lparr> shaderLocation = 0, attr_offset = cubePositionOffset, attr_format = ''float32x4'' \<rparr>,
       \<lparr> shaderLocation = 1, attr_offset = cubeUVOffset, attr_format = ''float32x2'' \<rparr>],
     fragment_module = fragmentModule,
     fragment_entryPoint = ''main'',
     target_format = textureFormat p,
     topology = ''triangle-list'',
     cullMode = ''back'',
     depthWriteEnabled = True,
     depthCompare = ''less'',
     depth_format = ''depth24plus'' \<rparr>"

definition initial_renderPassDescriptor :: "id \<Rightarrow> render_pass_descriptor" where
  "initial_renderPassDescriptor depthView = \<lparr>
     color_view = None,
     clearValue = (0.5, 0.5, 0.5, 1.0),
     loadOp = ''clear'',
     storeOp = ''store'',
     depth_view = depthView,
     depthClearValue = 1.0,
     depthLoadOp = ''clear'',
     depthStoreOp = ''store'' \<rparr>"

text \<open>
  The end of main, after the GPU objects: the render pass descriptor, the aspect, the two
  matrices, and the first \<^verbatim>\<open>requestAnimationFrame(frame)\<close>.
\<close>

definition main_rest ::
  "wgpu_matrix \<Rightarrow> props \<Rightarrow> id \<Rightarrow> id \<Rightarrow> id \<Rightarrow> id \<Rightarrow> id \<Rightarrow> id \<Rightarrow> world \<Rightarrow> (error + scope) \<times> world" where
  "main_rest L p vb pl dt ub bg depthView w =
     (let aspect = width (canvas p) / height (canvas p);
          (projection, h1) = new_array (mat4_perspective L ((2 * pi) / 5) aspect 1 100.0) (js_heap w);
          (mvp, h2) = new_array (mat4_create L) h1
      in (Inr \<lparr> verticesBuffer = vb, pipeline = pl, depthTexture = dt, uniformBuffer = ub,
                uniformBindGroup = bg,
                renderPassDescriptor = initial_renderPassDescriptor depthView,
                projectionMatrix = projection, modelViewProjectionMatrix = mvp \<rparr>,
          requestAnimationFrame (w\<lparr>js_heap := h2\<rparr>)))"

definition main ::
  "wgpu_matrix \<Rightarrow> (call \<Rightarrow> bool) \<Rightarrow> (call \<Rightarrow> bool) \<Rightarrow> f32array \<Rightarrow> props \<Rightarrow> world \<Rightarrow>
   (error + scope) \<times> world" where
  "main L throws invalid cubeVertexArray p =
     and_then (attempt_create throws invalid CreateVerticesBuffer []
                 (createBuffer (byteLength cubeVertexArray) [VERTEX] True)) (\<lambda>vb.
     and_then (attempt throws SetMappedVertices (set_mapped vb cubeVertexArray)) (\<lambda>_.
     and_then (attempt throws Unmap (\<lambda>w. ((), w))) (\<lambda>_.
     and_then (attempt_create throws invalid CreateVertexShader []
                 (create (ShaderModule (basicVertWgsl p)))) (\<lambda>vm.
     and_then (attempt_create throws invalid CreateFragmentShader []
                 (create (ShaderModule (vertexPositionColorWgsl p)))) (\<lambda>fm.
     and_then (attempt_create throws invalid CreateRenderPipeline [vm, fm]
                 (create (RenderPipeline (pipeline_descriptor p vm fm)))) (\<lambda>pl.
     and_then (attempt_create throws invalid CreateDepthTexture []
                 (create (Texture (width (canvas p)) (height (canvas p)) ''depth24plus''
                    [RENDER_ATTACHMENT]))) (\<lambda>dt.
     and_then (attempt_create throws invalid CreateUniformBuffer []
                 (createBuffer (4 * 16) [UNIFORM, COPY_DST] False)) (\<lambda>ub.
     and_then (attempt_create throws invalid GetBindGroupLayout [pl]
                 (create (BindGroupLayout pl 0))) (\<lambda>layout.
     and_then (attempt_create throws invalid CreateBindGroup [layout, ub]
                 (create (BindGroup layout [(0, ub)]))) (\<lambda>bg.
     and_then (attempt_create throws invalid CreateDepthView [dt] (createView dt)) (\<lambda>depthView.
     main_rest L p vb pl dt ub bg depthView)))))))))))"

section \<open>frame\<close>

text \<open>
  \<open>dateNow\<close> is what \<^verbatim>\<open>Date.now()\<close> returns during the tick. The data handed to
  \<^verbatim>\<open>writeBuffer\<close> is \<^verbatim>\<open>transformationMatrix.buffer\<close> from \<^verbatim>\<open>byteOffset\<close> for
  \<^verbatim>\<open>byteLength\<close> bytes: the elements of the array, as they are at the call.
\<close>

definition frame :: "wgpu_matrix \<Rightarrow> real \<Rightarrow> scope \<times> world \<Rightarrow> scope \<times> world" where
  "frame L dateNow s =
     (let sc = fst s; w0 = snd s;
          (transformationMatrix, h) =
             getTransformationMatrix L (projectionMatrix sc) (modelViewProjectionMatrix sc)
               dateNow (js_heap w0);
          w1 = w0\<lparr>js_heap := h\<rparr>;
          w2 = queue_writeBuffer (uniformBuffer sc) 0 (cells (js_heap w1) transformationMatrix) w1;
          (texture, w3) = getCurrentTexture w2;
          (view, w4) = createView texture w3;
          sc' = sc\<lparr>renderPassDescriptor := (renderPassDescriptor sc)\<lparr>color_view := Some view\<rparr>\<rparr>;
          commands = [BeginRenderPass (renderPassDescriptor sc'),
                      SetPipeline (pipeline sc'),
                      SetBindGroup 0 (uniformBindGroup sc'),
                      SetVertexBuffer 0 (verticesBuffer sc'),
                      Draw cubeVertexCount,
                      End];
          w5 = queue_submit [commands] w4;
          w6 = requestAnimationFrame w5
      in (sc', w6))"

text \<open>
  A display refresh: the browser takes the callbacks that wait and runs them, one after
  the other; callbacks requested meanwhile wait for the next refresh.
\<close>

definition refresh :: "wgpu_matrix \<Rightarrow> real \<Rightarrow> scope \<times> world \<Rightarrow> scope \<times> world" where
  "refresh L dateNow s = (frame L dateNow ^^ pending (snd s)) (fst s, (snd s)\<lparr>pending := 0\<rparr>)"

fun run_ticks :: "wgpu_matrix \<Rightarrow> real list \<Rightarrow> scope \<times> world \<Rightarrow> scope \<times> world" where
  "run_ticks L [] s = s"
| "run_ticks L (t # ts) s = run_ticks L ts (refresh L t s)"

section \<open>Module initialisation\<close>

datatype 'a promise = Fulfilled 'a | RejectedPromise

text \<open>
  What the browser answers. \<open>canvas_dim\<close> is the value the canvas reports after an
  assignment to \<open>width\<close> or \<open>height\<close>; the booleans of \<open>requestAdapter\<close> and
  \<open>requestDevice\<close> say whether the promise is fulfilled with an object or with null;
  \<open>throws\<close> and \<open>invalid\<close> say which calls of main throw and which fail without
  throwing.
\<close>

record env =
  navigator_gpu :: bool
  canvas_found :: bool
  innerWidth :: real
  innerHeight :: real
  clientWidth :: real
  clientHeight :: real
  devicePixelRatio :: real
  canvas_dim :: "real \<Rightarrow> real"
  requestAdapter :: "bool promise"
  requestDevice :: "bool promise"
  getContext :: bool
  getPreferredCanvasFormat :: string
  fetch_text :: "string \<Rightarrow> string promise"
  throws :: "call \<Rightarrow> bool"
  invalid :: "call \<Rightarrow> bool"

text \<open>
  The handshake both variants of index.ts share, up to the call of main: \<open>dims\<close> is the
  canvas size the variant assigns, \<open>run\<close> its main. An exception thrown in a promise
  callback, or a rejected promise without handler, ends the chain.
\<close>

definition handshake ::
  "env \<Rightarrow> real \<times> real \<Rightarrow> (string \<Rightarrow> string \<Rightarrow> string \<Rightarrow> canvas \<Rightarrow> world \<Rightarrow> (error + 'a) \<times> world) \<Rightarrow>
   world \<Rightarrow> (error + 'a) \<times> world" where
  "handshake e dims run w0 =
     (let w1 = emit (Fetch ''/src/shaders/basic_vert.wgsl'') w0;
          w2 = emit (Fetch ''/src/shaders/vertexPositionColor_frag.wgsl'') w1
      in if \<not> navigator_gpu e then (Inl (Error ''WebGPU not suported on this browser''), w2)
         else if \<not> canvas_found e then (Inl (Error ''Canvas not found''), w2)
         else
           (let cv = \<lparr> width = canvas_dim e (fst dims), height = canvas_dim e (snd dims) \<rparr>
            in case requestAdapter e of
                 RejectedPromise \<Rightarrow> (Inl (Error ''No appropriate GPUAdapter found.''), w2)
               | Fulfilled adapter \<Rightarrow>
                   if \<not> adapter then (Inl (Error ''Adapter not found''), w2)
                   else
                     (case requestDevice e of
                        RejectedPromise \<Rightarrow> (Inl (Rejected ''requestDevice''), w2)
                      | Fulfilled device \<Rightarrow>
                          if \<not> device then (Inl (Error ''device not found''), w2)
                          else if \<not> getContext e then (Inl (Error ''Context not found''), w2)
                          else
                            (let canvasFormat = getPreferredCanvasFormat e;
                                 w3 = emit (Configure canvasFormat ''premultiplied'') w2
                             in case fetch_text e ''/src/shaders/basic_vert.wgsl'' of
                                  RejectedPromise \<Rightarrow> (Inl (Rejected ''fetch''), w3)
                                | Fulfilled vert \<Rightarrow>
                                    (case fetch_text e ''/src/shaders/vertexPositionColor_frag.wgsl'' of
                                       RejectedPromise \<Rightarrow> (Inl (Rejected ''fetch''), w3)
                                     | Fulfilled frag \<Rightarrow> run vert frag canvasFormat cv w3)))))"

text \<open>The first variant (lines 1 to 232).\<close>

definition index_ts ::
  "wgpu_matrix \<Rightarrow> env \<Rightarrow> f32array \<Rightarrow> world \<Rightarrow> (error + scope) \<times> world" where
  "index_ts L e cubeVertexArray =
     handshake e
       (innerWidth e - 50 * devicePixelRatio e, innerHeight e - 50 * devicePixelRatio e)
       (\<lambda>vert frag canvasFormat cv.
          main L (throws e) (invalid e) cubeVertexArray
            \<lparr> basicVertWgsl = vert, vertexPositionColorWgsl = frag,
              textureFormat = canvasFormat, canvas = cv \<rparr>)"

text \<open>
  The second variant (lines 233 to 452): the body of its main is a comment, apart from
  \<^verbatim>\<open>console.log('---', args)\<close>.
\<close>

definition main_variant2 :: "string \<Rightarrow> string \<Rightarrow> world \<Rightarrow> (error + unit) \<times> world" where
  "main_variant2 vert frag w = (Inr (), emit ConsoleLog w)"

definition index_ts_variant2 :: "env \<Rightarrow> world \<Rightarrow> (error + unit) \<times> world" where
  "index_ts_variant2 e =
     handshake e
       (clientWidth e * devicePixelRatio e, clientHeight e * devicePixelRatio e)
       (\<lambda>vert frag canvasFormat cv. main_variant2 vert frag)"

text \<open>The handshake goes through.\<close>

definition handshake_ok :: "env \<Rightarrow> bool" where
  "handshake_ok e \<longleftrightarrow>
     navigator_gpu e \<and> canvas_found e \<and> requestAdapter e = Fulfilled True \<and>
     requestDevice e = Fulfilled True \<and> getContext e \<and>
     fetch_text e ''/src/shaders/basic_vert.wgsl'' \<noteq> RejectedPromise \<and>
     fetch_text e ''/src/shaders/vertexPositionColor_frag.wgsl'' \<noteq> RejectedPromise"

definition all_calls :: "call list" where
  "all_calls = [CreateVerticesBuffer, SetMappedVertices, Unmap, CreateVertexShader,
     CreateFragmentShader, CreateRenderPipeline, CreateDepthTexture, CreateUniformBuffer,
     GetBindGroupLayout, CreateBindGroup, CreateDepthView]"

text \<open>
  The calls that create a GPU object, and the number of objects main has created when it
  reaches a call.
\<close>

definition creates :: "call \<Rightarrow> bool" where
  "creates c \<longleftrightarrow> c \<noteq> SetMappedVertices \<and> c \<noteq> Unmap"

definition created_before :: "call \<Rightarrow> nat" where
  "created_before c = length (filter creates (takeWhile (\<lambda>x. x \<noteq> c) all_calls))"

text \<open>The handshake goes through, no call of main throws, and none fails without throwing.\<close>

definition env_ok :: "env \<Rightarrow> bool" where
  "env_ok e \<longleftrightarrow> handshake_ok e \<and> list_all (\<lambda>c. \<not> throws e c) all_calls \<and>
     list_all (\<lambda>c. \<not> invalid e c) all_calls"

text \<open>A browser for the concrete instances: a window of 850 by 650, a canvas of 800 by 600.\<close>

definition stub_env :: env where
  "stub_env = \<lparr>
     navigator_gpu = True, canvas_found = True,
     innerWidth = 850, innerHeight = 650, clientWidth = 800, clientHeight = 600,
     devicePixelRatio = 1, canvas_dim = (\<lambda>x. x),
     requestAdapter = Fulfilled True, requestDevice = Fulfilled True, getContext = True,
     getPreferredCanvasFormat = ''bgra8unorm'',
     fetch_text = (\<lambda>url. Fulfilled ''wgsl''),
     throws = (\<lambda>c. False), invalid = (\<lambda>c. False) \<rparr>"

text \<open>The arguments main gets from that browser, and a mesh of 36 vertices of six floats.\<close>

definition stub_props :: props where
  "stub_props = \<lparr> basicVertWgsl = ''vertex'', vertexPositionColorWgsl = ''fragment'',
     textureFormat = ''bgra8unorm'', canvas = \<lparr> width = 800, height = 600 \<rparr> \<rparr>"

definition stub_mesh :: f32array where
  "stub_mesh = replicate 216 0"

section \<open>The Running state\<close>

text \<open>
  The host side of the state the frame loop runs in, whatever the GPU objects are: the two
  matrices are distinct arrays of the heap, the first holds the projection, and one
  \<open>frame\<close> callback waits for the next refresh.
\<close>

definition loop_running :: "wgpu_matrix \<Rightarrow> props \<Rightarrow> scope \<times> world \<Rightarrow> bool" where
  "loop_running L p s \<longleftrightarrow>
     (let sc = fst s; w = snd s; h = js_heap w
      in projectionMatrix sc < fresh h \<and> modelViewProjectionMatrix sc < fresh h \<and>
         projectionMatrix sc \<noteq> modelViewProjectionMatrix sc \<and>
         cells h (projectionMatrix sc) = projection_of L (width (canvas p) / height (canvas p)) \<and>
         length (cells h (modelViewProjectionMatrix sc)) = 16 \<and>
         pending w = 1)"

text \<open>
  The state the frame loop runs in after a construction that succeeded: the variables of
  main name the valid objects main created, the shader modules hold the two shader texts,
  the vertex buffer holds the mesh, and the host side is as above.
\<close>

definition running :: "wgpu_matrix \<Rightarrow> f32array \<Rightarrow> props \<Rightarrow> scope \<times> world \<Rightarrow> bool" where
  "running L cubeVertexArray p s \<longleftrightarrow>
     (let sc = fst s; w = snd s; h = js_heap w; d = renderPassDescriptor sc
      in verticesBuffer sc < next_id w \<and> pipeline sc < next_id w \<and> depthTexture sc < next_id w \<and>
         uniformBuffer sc < next_id w \<and> uniformBindGroup sc < next_id w \<and>
         depth_view d < next_id w \<and>
         verticesBuffer sc \<noteq> uniformBuffer sc \<and>
         objects w (verticesBuffer sc) = Some (Buffer (byteLength cubeVertexArray) [VERTEX] True) \<and>
         mem w (verticesBuffer sc) = cubeVertexArray \<and>
         (\<exists>vm fm. vm < next_id w \<and> fm < next_id w \<and>
              objects w vm = Some (ShaderModule (basicVertWgsl p)) \<and>
              objects w fm = Some (ShaderModule (vertexPositionColorWgsl p)) \<and>
              objects w (pipeline sc) = Some (RenderPipeline (pipeline_descriptor p vm fm))) \<and>
         objects w (depthTexture sc) =
           Some (Texture (width (canvas p)) (height (canvas p)) ''depth24plus'' [RENDER_ATTACHMENT]) \<and>
         objects w (uniformBuffer sc) = Some (Buffer 64 [UNIFORM, COPY_DST] False) \<and>
         length (mem w (uniformBuffer sc)) = 16 \<and>
         (\<exists>l. l < next_id w \<and> objects w l = Some (BindGroupLayout (pipeline sc) 0) \<and>
              objects w (uniformBindGroup sc) = Some (BindGroup l [(0, uniformBuffer sc)])) \<and>
         objects w (depth_view d) = Some (TextureView (depthTexture sc)) \<and>
         d\<lparr>color_view := None\<rparr> = initial_renderPassDescriptor (depth_view d) \<and>
         (case color_view d of None \<Rightarrow> True | Some v \<Rightarrow> v < next_id w) \<and>
         projectionMatrix sc < fresh h \<and> modelViewProjectionMatrix sc < fresh h \<and>
         projectionMatrix sc \<noteq> modelViewProjectionMatrix sc \<and>
         cells h (projectionMatrix sc) = projection_of L (width (canvas p) / height (canvas p)) \<and>
         length (cells h (modelViewProjectionMatrix sc)) = 16 \<and>
         pending w = 1)"

text \<open>
  The render pass of a tick whose colour attachment is \<open>view\<close>, and the commands the
  tick records with it.
\<close>

definition tick_pass :: "scope \<Rightarrow> id \<Rightarrow> render_pass_descriptor" where
  "tick_pass sc view = (renderPassDescriptor sc)\<lparr>color_view := Some view\<rparr>"

definition tick_commands :: "scope \<Rightarrow> id \<Rightarrow> command list" where
  "tick_commands sc view =
     [BeginRenderPass (tick_pass sc view), SetPipeline (pipeline sc),
      SetBindGroup 0 (uniformBindGroup sc), SetVertexBuffer 0 (verticesBuffer sc),
      Draw cubeVertexCount, End]"

text \<open>
  The calls of the tick that starts with \<open>n\<close> GPU objects in existence and uploads the
  matrix \<open>m\<close>: the surface's texture is object \<open>n\<close>, its view object \<open>n + 1\<close>.
\<close>

definition tick_events :: "scope \<Rightarrow> nat \<Rightarrow> f32array \<Rightarrow> event list" where
  "tick_events sc n m =
     [QueueWriteBuffer (uniformBuffer sc) 0 m, GetCurrentTexture n,
      QueueSubmit [tick_commands sc (Suc n)], RequestAnimationFrame]"

text \<open>The draw call of that tick, as the queue executes it.\<close>

definition tick_draw :: "scope \<Rightarrow> nat \<Rightarrow> f32array \<Rightarrow> f32array \<Rightarrow> draw_call" where
  "tick_draw sc n m vertices =
     \<lparr> drawn_pass = Some (tick_pass sc (Suc n)), drawn_pipeline = Some (pipeline sc),
       drawn_group0 = [(0, m)], drawn_vertices = Some vertices, drawn_count = cubeVertexCount \<rparr>"

text \<open>
  The calls and the draw calls of successive ticks at the times \<open>ts\<close>, the first of
  them starting with \<open>n\<close> GPU objects in existence; \<open>P\<close> is the projection.
\<close>

fun ticks_events :: "wgpu_matrix \<Rightarrow> f32array \<Rightarrow> scope \<Rightarrow> nat \<Rightarrow> real list \<Rightarrow> event list" where
  "ticks_events L P sc n [] = []"
| "ticks_events L P sc n (t # ts) =
     tick_events sc n (mvp_at L P t) @ ticks_events L P sc (n + 2) ts"

fun ticks_draws ::
  "wgpu_matrix \<Rightarrow> f32array \<Rightarrow> scope \<Rightarrow> nat \<Rightarrow> f32array \<Rightarrow> real list \<Rightarrow> draw_call list" where
  "ticks_draws L P sc n vertices [] = []"
| "ticks_draws L P sc n vertices (t # ts) =
     tick_draw sc n (mvp_at L P t) vertices # ticks_draws L P sc (n + 2) vertices ts"

section \<open>Lemmas on the heap\<close>

lemma length_overwrite [simp]: "length (overwrite old new) = length old"
  by (simp add: overwrite_def)

lemma overwrite_same_length [simp]: "length new = length old \<Longrightarrow> overwrite old new = new"
  by (simp add: overwrite_def)

lemma mat4_lib_real_mat4: "mat4_lib real_mat4"
  by (simp add: mat4_lib_def real_mat4_def mul4_def translation4_def rotation4_def
      perspective4_def Let_def)

lemma getTransformationMatrix_ref:
  "fst (getTransformationMatrix L P M t h) = M"
  by (simp add: getTransformationMatrix_def new_array_def Let_def)

lemma getTransformationMatrix_cells:
  assumes "mat4_lib L" and "P < fresh h" and "M < fresh h" and "P \<noteq> M"
    and "length (cells h M) = 16"
  shows "cells (snd (getTransformationMatrix L P M t h)) M = mvp_at L (cells h P) t"
  using assms
  by (simp add: getTransformationMatrix_def new_array_def write_array_def Let_def
      mvp_at_def viewMatrix_at_def rotationAxis_def now_of_def mat4_lib_def)

lemma getTransformationMatrix_frame:
  assumes "r < fresh h" and "r \<noteq> M"
  shows "cells (snd (getTransformationMatrix L P M t h)) r = cells h r"
  using assms
  by (simp add: getTransformationMatrix_def new_array_def write_array_def Let_def)

lemma getTransformationMatrix_fresh:
  "fresh (snd (getTransformationMatrix L P M t h)) = Suc (fresh h)"
  by (simp add: getTransformationMatrix_def new_array_def write_array_def Let_def)

lemma getTransformationMatrix_length:
  "M < fresh h \<Longrightarrow>
   length (cells (snd (getTransformationMatrix L P M t h)) M) = length (cells h M)"
  by (simp add: getTransformationMatrix_def new_array_def write_array_def Let_def)

section \<open>Lemmas on main\<close>

lemma and_then_attempt:
  "and_then (attempt thr c f) g w =
     (if thr c then (Inl (Thrown c), w) else g (fst (f w)) (snd (f w)))"
  by (simp add: and_then_def attempt_def)

lemma and_then_attempt_create:
  "and_then (attempt_create thr inval c deps f) g w =
     (if thr c then (Inl (Thrown c), w)
      else if inval c \<or> list_ex (\<lambda>d. objects w d = Some Invalid) deps
      then g (fst (create Invalid w)) (emit (ValidationError c) (snd (create Invalid w)))
      else g (fst (f w)) (snd (f w)))"
  by (simp add: and_then_def attempt_create_def)

lemma create_quiet [simp]:
  "events (snd (create obj w)) = events w" "pending (snd (create obj w)) = pending w"
  "rendered (snd (create obj w)) = rendered w" "js_heap (snd (create obj w)) = js_heap w"
  "fst (create obj w) = next_id w" "next_id (snd (create obj w)) = Suc (next_id w)"
  by (simp_all add: create_def)

lemma createBuffer_quiet [simp]:
  "events (snd (createBuffer sz us m w)) = events w"
  "pending (snd (createBuffer sz us m w)) = pending w"
  "rendered (snd (createBuffer sz us m w)) = rendered w"
  "js_heap (snd (createBuffer sz us m w)) = js_heap w"
  "fst (createBuffer sz us m w) = next_id w"
  "next_id (snd (createBuffer sz us m w)) = Suc (next_id w)"
  by (simp_all add: createBuffer_def create_def Let_def)

lemma set_mapped_quiet [simp]:
  "events (snd (set_mapped b xs w)) = events w" "pending (snd (set_mapped b xs w)) = pending w"
  "rendered (snd (set_mapped b xs w)) = rendered w" "js_heap (snd (set_mapped b xs w)) = js_heap w"
  "next_id (snd (set_mapped b xs w)) = next_id w"
  by (simp_all add: set_mapped_def)

lemma createView_quiet [simp]:
  "events (snd (createView t w)) = events w" "pending (snd (createView t w)) = pending w"
  "rendered (snd (createView t w)) = rendered w" "js_heap (snd (createView t w)) = js_heap w"
  "fst (createView t w) = next_id w" "next_id (snd (createView t w)) = Suc (next_id w)"
  by (simp_all add: createView_def)

lemma emit_quiet [simp]:
  "pending (emit e w) = pending w" "rendered (emit e w) = rendered w"
  "js_heap (emit e w) = js_heap w" "objects (emit e w) = objects w" "mem (emit e w) = mem w"
  "next_id (emit e w) = next_id w" "events (emit e w) = events w @ [e]"
  by (simp_all add: emit_def)

lemma attempt_cases:
  assumes "and_then (attempt thr c f) g w = r"
  obtains "thr c" and "r = (Inl (Thrown c), w)"
    | "\<not> thr c" and "g (fst (f w)) (snd (f w)) = r"
  using assms by (auto simp: and_then_attempt split: if_splits)

lemma create_cases_general:
  assumes "and_then (attempt_create thr inval c deps f) g w = r"
    and "js_heap (snd (f w)) = js_heap w" and "pending (snd (f w)) = pending w"
    and "rendered (snd (f w)) = rendered w" and "events (snd (f w)) = events w"
    and "fst (f w) = next_id w" and "next_id (snd (f w)) = Suc (next_id w)"
  obtains "thr c" and "r = (Inl (Thrown c), w)"
    | w' bad where "\<not> thr c" and "g (next_id w) w' = r" and "js_heap w' = js_heap w"
      and "pending w' = pending w" and "rendered w' = rendered w"
      and "events w' = events w @ (if bad then [ValidationError c] else [])"
      and "next_id w' = Suc (next_id w)" and "inval c \<longrightarrow> bad"
proof (cases "thr c")
  case True
  with assms(1) that(1) show ?thesis by (simp add: and_then_attempt_create)
next
  case False
  show ?thesis
  proof (cases "inval c \<or> list_ex (\<lambda>d. objects w d = Some Invalid) deps")
    case True
    with False assms(1)
    have h: "g (next_id w) (emit (ValidationError c) (snd (create Invalid w))) = r"
      by (simp add: and_then_attempt_create)
    show ?thesis
      by (rule that(2) [of "emit (ValidationError c) (snd (create Invalid w))" True])
        (use False h in simp_all)
  next
    case no: False
    with False assms(1) have h: "g (next_id w) (snd (f w)) = r"
      by (simp add: and_then_attempt_create assms(6))
    show ?thesis
      by (rule that(2) [of "snd (f w)" False]) (use False no h assms in simp_all)
  qed
qed

lemma create_cases:
  assumes "and_then (attempt_create thr inval c deps (create obj)) g w = r"
  obtains "thr c" and "r = (Inl (Thrown c), w)"
    | w' bad where "\<not> thr c" and "g (next_id w) w' = r" and "js_heap w' = js_heap w"
      and "pending w' = pending w" and "rendered w' = rendered w"
      and "events w' = events w @ (if bad then [ValidationError c] else [])"
      and "next_id w' = Suc (next_id w)" and "inval c \<longrightarrow> bad"
  using assms by (rule create_cases_general) simp_all

lemma createBuffer_cases:
  assumes "and_then (attempt_create thr inval c deps (createBuffer sz us m)) g w = r"
  obtains "thr c" and "r = (Inl (Thrown c), w)"
    | w' bad where "\<not> thr c" and "g (next_id w) w' = r" and "js_heap w' = js_heap w"
      and "pending w' = pending w" and "rendered w' = rendered w"
      and "events w' = events w @ (if bad then [ValidationError c] else [])"
      and "next_id w' = Suc (next_id w)" and "inval c \<longrightarrow> bad"
  using assms by (rule create_cases_general) simp_all

lemma createView_cases:
  assumes "and_then (attempt_create thr inval c deps (createView t)) g w = r"
  obtains "thr c" and "r = (Inl (Thrown c), w)"
    | w' bad where "\<not> thr c" and "g (next_id w) w' = r" and "js_heap w' = js_heap w"
      and "pending w' = pending w" and "rendered w' = rendered w"
      and "events w' = events w @ (if bad then [ValidationError c] else [])"
      and "next_id w' = Suc (next_id w)" and "inval c \<longrightarrow> bad"
  using assms by (rule create_cases_general) simp_all

lemma main_rest_Inr: "main_rest L p vb pl dt ub bg dv w \<noteq> (Inl e, w')"
  by (simp add: main_rest_def Let_def split_def)

lemma main_Inl:
  assumes "main L thr inval arr p w0 = (Inl e, w1)"
  shows "\<exists>c. e = Thrown c \<and> thr c \<and> find thr all_calls = Some c \<and>
     next_id w1 = next_id w0 + created_before c \<and>
     pending w1 = pending w0 \<and> rendered w1 = rendered w0 \<and> js_heap w1 = js_heap w0 \<and>
     take (length (events w0)) (events w1) = events w0 \<and>
     RequestAnimationFrame \<notin> set (drop (length (events w0)) (events w1))"
  using assms unfolding main_def
  by (elim create_cases createBuffer_cases createView_cases attempt_cases)
     (simp_all add: main_rest_Inr all_calls_def created_before_def creates_def)

lemma main_Inr:
  assumes "main L thr inval arr p w0 = (Inr sc, w1)"
  shows "list_all (\<lambda>c. \<not> thr c) all_calls \<and> pending w1 = Suc (pending w0) \<and>
     rendered w1 = rendered w0 \<and> last (events w1) = RequestAnimationFrame \<and>
     RequestAnimationFrame \<in> set (drop (length (events w0)) (events w1)) \<and>
     next_id w1 = next_id w0 + 9 \<and>
     color_view (renderPassDescriptor sc) = None \<and>
     modelViewProjectionMatrix sc < fresh (js_heap w1) \<and>
     (mat4_lib L \<and> pending w0 = 0 \<longrightarrow> loop_running L p (sc, w1))"
  using assms unfolding main_def
  apply (elim create_cases createBuffer_cases createView_cases attempt_cases)
             apply simp_all
  apply (clarsimp simp: all_calls_def main_rest_def Let_def new_array_def
      requestAnimationFrame_def emit_def loop_running_def projection_of_def mat4_lib_def
      initial_renderPassDescriptor_def)
  done


lemma main_no_throw:
  assumes "main L thr inval arr p w0 = (Inr sc0, w1)"
  shows "list_all (\<lambda>c. \<not> thr c) all_calls"
  using main_Inr [OF assms] by simp

lemma runningI:
  assumes "verticesBuffer sc < next_id w" and "pipeline sc < next_id w"
    and "depthTexture sc < next_id w" and "uniformBuffer sc < next_id w"
    and "uniformBindGroup sc < next_id w" and "depth_view (renderPassDescriptor sc) < next_id w"
    and "verticesBuffer sc \<noteq> uniformBuffer sc"
    and "objects w (verticesBuffer sc) = Some (Buffer (byteLength arr) [VERTEX] True)"
    and "mem w (verticesBuffer sc) = arr"
    and "vm < next_id w" and "fm < next_id w"
    and "objects w vm = Some (ShaderModule (basicVertWgsl p))"
    and "objects w fm = Some (ShaderModule (vertexPositionColorWgsl p))"
    and "objects w (pipeline sc) = Some (RenderPipeline (pipeline_descriptor p vm fm))"
    and "objects w (depthTexture sc) =
      Some (Texture (width (canvas p)) (height (canvas p)) ''depth24plus'' [RENDER_ATTACHMENT])"
    and "objects w (uniformBuffer sc) = Some (Buffer 64 [UNIFORM, COPY_DST] False)"
    and "length (mem w (uniformBuffer sc)) = 16"
    and "l < next_id w" and "objects w l = Some (BindGroupLayout (pipeline sc) 0)"
    and "objects w (uniformBindGroup sc) = Some (BindGroup l [(0, uniformBuffer sc)])"
    and "objects w (depth_view (renderPassDescriptor sc)) = Some (TextureView (depthTexture sc))"
    and "(renderPassDescriptor sc)\<lparr>color_view := None\<rparr> =
      initial_renderPassDescriptor (depth_view (renderPassDescriptor sc))"
    and "case color_view (renderPassDescriptor sc) of None \<Rightarrow> True | Some v \<Rightarrow> v < next_id w"
    and "loop_running L p (sc, w)"
  shows "running L arr p (sc, w)"
proof -
  have 1: "\<exists>vm fm. vm < next_id w \<and> fm < next_id w \<and>
      objects w vm = Some (ShaderModule (basicVertWgsl p)) \<and>
      objects w fm = Some (ShaderModule (vertexPositionColorWgsl p)) \<and>
      objects w (pipeline sc) = Some (RenderPipeline (pipeline_descriptor p vm fm))"
    using assms(10-14) by blast
  have 2: "\<exists>l. l < next_id w \<and> objects w l = Some (BindGroupLayout (pipeline sc) 0) \<and>
      objects w (uniformBindGroup sc) = Some (BindGroup l [(0, uniformBuffer sc)])"
    using assms(18-20) by blast
  from assms(24) have 3: "projectionMatrix sc < fresh (js_heap w)"
    "modelViewProjectionMatrix sc < fresh (js_heap w)"
    "projectionMatrix sc \<noteq> modelViewProjectionMatrix sc"
    "cells (js_heap w) (projectionMatrix sc) =
       projection_of L (width (canvas p) / height (canvas p))"
    "length (cells (js_heap w) (modelViewProjectionMatrix sc)) = 16" "pending w = 1"
    by (simp_all add: loop_running_def Let_def)
  show ?thesis
    unfolding running_def Let_def fst_conv snd_conv
    using assms(1-9) assms(15-17) assms(21-23) 1 2 3
    by (intro conjI)
qed

lemma main_running:
  assumes "list_all (\<lambda>c. \<not> thr c) all_calls" and "list_all (\<lambda>c. \<not> inval c) all_calls"
    and "pending w0 = 0" and "mat4_lib L"
  shows "\<exists>sc0 w1. main L thr inval arr p w0 = (Inr sc0, w1) \<and> running L arr p (sc0, w1) \<and>
     events w1 = events w0 @ [RequestAnimationFrame] \<and> rendered w1 = rendered w0 \<and>
     color_view (renderPassDescriptor sc0) = None"
proof -
  let ?n = "next_id w0"
  have "\<exists>sc0 w1. main L thr inval arr p w0 = (Inr sc0, w1) \<and>
     events w1 = events w0 @ [RequestAnimationFrame] \<and> rendered w1 = rendered w0 \<and>
     next_id w1 = ?n + 9 \<and>
     verticesBuffer sc0 = ?n \<and> pipeline sc0 = ?n + 3 \<and> depthTexture sc0 = ?n + 4 \<and>
     uniformBuffer sc0 = ?n + 5 \<and> uniformBindGroup sc0 = ?n + 7 \<and>
     renderPassDescriptor sc0 = initial_renderPassDescriptor (?n + 8) \<and>
     objects w1 ?n = Some (Buffer (byteLength arr) [VERTEX] True) \<and>
     mem w1 ?n = arr \<and>
     objects w1 (Suc ?n) = Some (ShaderModule (basicVertWgsl p)) \<and>
     objects w1 (Suc (Suc ?n)) = Some (ShaderModule (vertexPositionColorWgsl p)) \<and>
     objects w1 (?n + 3) = Some (RenderPipeline (pipeline_descriptor p (Suc ?n) (Suc (Suc ?n)))) \<and>
     objects w1 (?n + 4) =
       Some (Texture (width (canvas p)) (height (canvas p)) ''depth24plus'' [RENDER_ATTACHMENT]) \<and>
     objects w1 (?n + 5) = Some (Buffer 64 [UNIFORM, COPY_DST] False) \<and>
     length (mem w1 (?n + 5)) = 16 \<and>
     objects w1 (?n + 6) = Some (BindGroupLayout (?n + 3) 0) \<and>
     objects w1 (?n + 7) = Some (BindGroup (?n + 6) [(0, ?n + 5)]) \<and>
     objects w1 (?n + 8) = Some (TextureView (?n + 4))"
    using assms(1,2)
    by (simp add: main_def and_then_attempt and_then_attempt_create all_calls_def
      createBuffer_def create_def set_mapped_def createView_def byteLength_def Let_def
      main_rest_def new_array_def requestAnimationFrame_def emit_def)
      (simp add: eval_nat_numeral)
  then obtain sc0 w1 where m: "main L thr inval arr p w0 = (Inr sc0, w1)"
    and f: "events w1 = events w0 @ [RequestAnimationFrame]" "rendered w1 = rendered w0"
     "next_id w1 = ?n + 9"
     "verticesBuffer sc0 = ?n" "pipeline sc0 = ?n + 3" "depthTexture sc0 = ?n + 4"
     "uniformBuffer sc0 = ?n + 5" "uniformBindGroup sc0 = ?n + 7"
     "renderPassDescriptor sc0 = initial_renderPassDescriptor (?n + 8)"
     "objects w1 ?n = Some (Buffer (byteLength arr) [VERTEX] True)"
     "mem w1 ?n = arr"
     "objects w1 (Suc ?n) = Some (ShaderModule (basicVertWgsl p))"
     "objects w1 (Suc (Suc ?n)) = Some (ShaderModule (vertexPositionColorWgsl p))"
     "objects w1 (?n + 3) = Some (RenderPipeline (pipeline_descriptor p (Suc ?n) (Suc (Suc ?n))))"
     "objects w1 (?n + 4) =
       Some (Texture (width (canvas p)) (height (canvas p)) ''depth24plus'' [RENDER_ATTACHMENT])"
     "objects w1 (?n + 5) = Some (Buffer 64 [UNIFORM, COPY_DST] False)"
     "length (mem w1 (?n + 5)) = 16"
     "objects w1 (?n + 6) = Some (BindGroupLayout (?n + 3) 0)"
     "objects w1 (?n + 7) = Some (BindGroup (?n + 6) [(0, ?n + 5)])"
     "objects w1 (?n + 8) = Some (TextureView (?n + 4))"
    by blast
  from main_Inr [OF m] assms(3,4) have lr: "loop_running L p (sc0, w1)" by simp
  have d: "depth_view (renderPassDescriptor sc0) = ?n + 8"
    and cv: "color_view (renderPassDescriptor sc0) = None"
    by (simp_all add: f(9) initial_renderPassDescriptor_def)
  have "running L arr p (sc0, w1)"
    by (rule runningI [where vm = "Suc ?n" and fm = "Suc (Suc ?n)" and l = "?n + 6"])
      (simp_all add: f d cv lr initial_renderPassDescriptor_def)
  with m f(1,2) cv show ?thesis by blast
qed

lemma main_succeeds:
  assumes "list_all (\<lambda>c. \<not> thr c) all_calls"
  shows "\<exists>sc0 w1. main L thr inval arr p w0 = (Inr sc0, w1)"
proof -
  obtain r w1 where m: "main L thr inval arr p w0 = (r, w1)"
    by (cases "main L thr inval arr p w0")
  show ?thesis
  proof (cases r)
    case (Inl e)
    with main_Inl [of L thr inval arr p w0 e w1] m obtain c where "thr c" by blast
    moreover have "c \<in> set all_calls" by (cases c) (simp_all add: all_calls_def)
    ultimately show ?thesis using assms by (simp add: list_all_iff)
  next
    case (Inr sc)
    with m show ?thesis by blast
  qed
qed

lemma main_started:
  assumes "main L thr inval arr p w0 = (Inr sc0, w1)" and "\<forall>c. \<not> inval c"
    and "pending w0 = 0" and "mat4_lib L"
  shows "running L arr p (sc0, w1)"
    and "events w1 = events w0 @ [RequestAnimationFrame]"
    and "rendered w1 = rendered w0"
    and "color_view (renderPassDescriptor sc0) = None"
proof -
  from assms(2) have ni: "list_all (\<lambda>c. \<not> inval c) all_calls"
    by (simp add: list_all_iff)
  from main_running [OF main_no_throw [OF assms(1)] ni assms(3,4), of arr p] assms(1)
  show "running L arr p (sc0, w1)"
    and "events w1 = events w0 @ [RequestAnimationFrame]"
    and "rendered w1 = rendered w0"
    and "color_view (renderPassDescriptor sc0) = None"
    by auto
qed

lemma main_loop_started:
  assumes "main L thr inval arr p w0 = (Inr sc0, w1)" and "pending w0 = 0" and "mat4_lib L"
  shows "loop_running L p (sc0, w1)"
  using main_Inr [OF assms(1)] assms(2,3) by simp

lemma running_loop_running:
  "running L arr p s \<Longrightarrow> loop_running L p s"
  by (simp add: running_def loop_running_def Let_def)

section \<open>Lemmas on frame\<close>

lemma refresh_pending1:
  "pending (snd s) = 1 \<Longrightarrow> refresh L t s = frame L t (fst s, (snd s)\<lparr>pending := 0\<rparr>)"
  by (simp add: refresh_def)

lemma write_at_all: "length old = length xs \<Longrightarrow> write_at 0 xs old = xs"
  by (simp add: write_at_def)

lemma queue_writeBuffer_quiet [simp]:
  "events (queue_writeBuffer b off xs w) = events w @ [QueueWriteBuffer b off xs]"
  "pending (queue_writeBuffer b off xs w) = pending w"
  "rendered (queue_writeBuffer b off xs w) = rendered w"
  "js_heap (queue_writeBuffer b off xs w) = js_heap w"
  "objects (queue_writeBuffer b off xs w) = objects w"
  "next_id (queue_writeBuffer b off xs w) = next_id w"
  by (simp_all add: queue_writeBuffer_def Let_def emit_def)

lemma queue_submit_quiet [simp]:
  "events (queue_submit cbs w) = events w @ [QueueSubmit cbs]"
  "pending (queue_submit cbs w) = pending w"
  "js_heap (queue_submit cbs w) = js_heap w"
  "objects (queue_submit cbs w) = objects w"
  "next_id (queue_submit cbs w) = next_id w"
  "mem (queue_submit cbs w) = mem w"
  by (simp_all add: queue_submit_def emit_def)

text \<open>What a tick does on the host side, whatever the GPU objects are.\<close>

lemma frame_core_effect:
  fixes t :: real
  assumes L: "mat4_lib L" and run: "loop_running L p (sc, w)"
  defines "M \<equiv> mvp_at L (projection_of L (width (canvas p) / height (canvas p))) t"
  defines "s' \<equiv> refresh L t (sc, w)"
  shows "fst s' = sc\<lparr>renderPassDescriptor := tick_pass sc (Suc (next_id w))\<rparr>"
    and "events (snd s') = events w @ tick_events sc (next_id w) M"
    and "objects (snd s') = (objects w)(next_id w := Some CanvasTexture,
           Suc (next_id w) := Some (TextureView (next_id w)))"
    and "next_id (snd s') = Suc (Suc (next_id w))"
    and "cells (js_heap (snd s')) (modelViewProjectionMatrix sc) = M"
    and "cells (js_heap (snd s')) (projectionMatrix sc) = cells (js_heap w) (projectionMatrix sc)"
    and "fresh (js_heap (snd s')) = Suc (fresh (js_heap w))"
    and "pending (snd s') = 1"
    and "length M = 16"
    and "s' = frame L t (sc, w\<lparr>pending := 0\<rparr>)"
proof -
  let ?h = "js_heap w"
  let ?P = "projectionMatrix sc" and ?Mr = "modelViewProjectionMatrix sc"
  let ?g = "getTransformationMatrix L ?P ?Mr t ?h"
  from run have P: "?P < fresh ?h" and Mr: "?Mr < fresh ?h" and PM: "?P \<noteq> ?Mr"
    and cP: "cells ?h ?P = projection_of L (width (canvas p) / height (canvas p))"
    and lM: "length (cells ?h ?Mr) = 16" and pend: "pending w = 1"
    by (simp_all add: loop_running_def Let_def)
  have g1: "fst ?g = ?Mr" by (rule getTransformationMatrix_ref)
  have g2: "cells (snd ?g) ?Mr = M"
    using getTransformationMatrix_cells [OF L P Mr PM lM, of t] by (simp add: M_def cP)
  have g3: "cells (snd ?g) ?P = cells ?h ?P"
    using getTransformationMatrix_frame [OF P PM] by simp
  have g4: "fresh (snd ?g) = Suc (fresh ?h)" by (rule getTransformationMatrix_fresh)
  show len: "length M = 16" using L by (simp add: M_def mvp_at_def mat4_lib_def)
  show s': "s' = frame L t (sc, w\<lparr>pending := 0\<rparr>)"
    unfolding s'_def using pend by (simp add: refresh_pending1)
  note defs = frame_def Let_def split_def g1 g2 g3 g4
    getCurrentTexture_def createView_def create_def emit_def
    requestAnimationFrame_def tick_pass_def tick_commands_def tick_events_def
  show "fst s' = sc\<lparr>renderPassDescriptor := tick_pass sc (Suc (next_id w))\<rparr>"
    by (simp add: s' defs)
  show "events (snd s') = events w @ tick_events sc (next_id w) M"
    by (simp add: s' defs)
  show "objects (snd s') = (objects w)(next_id w := Some CanvasTexture,
           Suc (next_id w) := Some (TextureView (next_id w)))"
    by (simp add: s' defs)
  show "next_id (snd s') = Suc (Suc (next_id w))"
    by (simp add: s' defs)
  show "cells (js_heap (snd s')) (modelViewProjectionMatrix sc) = M"
    by (simp add: s' defs)
  show "cells (js_heap (snd s')) (projectionMatrix sc) = cells (js_heap w) (projectionMatrix sc)"
    by (simp add: s' defs)
  show "fresh (js_heap (snd s')) = Suc (fresh (js_heap w))"
    by (simp add: s' defs)
  show "pending (snd s') = 1"
    by (simp add: s' defs)
qed

lemma refresh_loop_running:
  assumes L: "mat4_lib L" and run: "loop_running L p (sc, w)"
  shows "loop_running L p (refresh L t (sc, w))"
proof -
  note fe = frame_core_effect [OF L run, of t]
  from run fe(9) show ?thesis
    unfolding loop_running_def Let_def
    by (simp add: fe(1) fe(5) fe(6) fe(7) fe(8))
qed

text \<open>What a tick does with valid GPU objects.\<close>

lemma frame_effect:
  fixes t :: real
  assumes L: "mat4_lib L" and run: "running L arr p (sc, w)"
  defines "M \<equiv> mvp_at L (projection_of L (width (canvas p) / height (canvas p))) t"
  defines "s' \<equiv> refresh L t (sc, w)"
  shows "fst s' = sc\<lparr>renderPassDescriptor := tick_pass sc (Suc (next_id w))\<rparr>"
    and "events (snd s') = events w @ tick_events sc (next_id w) M"
    and "rendered (snd s') = rendered w @ [tick_draw sc (next_id w) M arr]"
    and "mem (snd s') = (mem w)(uniformBuffer sc := M)"
    and "objects (snd s') = (objects w)(next_id w := Some CanvasTexture,
           Suc (next_id w) := Some (TextureView (next_id w)))"
    and "next_id (snd s') = Suc (Suc (next_id w))"
    and "cells (js_heap (snd s')) (modelViewProjectionMatrix sc) = M"
    and "cells (js_heap (snd s')) (projectionMatrix sc) = cells (js_heap w) (projectionMatrix sc)"
    and "fresh (js_heap (snd s')) = Suc (fresh (js_heap w))"
    and "pending (snd s') = 1"
    and "length M = 16"
    and "s' = frame L t (sc, w\<lparr>pending := 0\<rparr>)"
proof -
  note core = frame_core_effect [OF L running_loop_running [OF run], of t, folded M_def s'_def]
  show "fst s' = sc\<lparr>renderPassDescriptor := tick_pass sc (Suc (next_id w))\<rparr>"
    and "events (snd s') = events w @ tick_events sc (next_id w) M"
    and "objects (snd s') = (objects w)(next_id w := Some CanvasTexture,
           Suc (next_id w) := Some (TextureView (next_id w)))"
    and "next_id (snd s') = Suc (Suc (next_id w))"
    and "cells (js_heap (snd s')) (modelViewProjectionMatrix sc) = M"
    and "cells (js_heap (snd s')) (projectionMatrix sc) = cells (js_heap w) (projectionMatrix sc)"
    and "fresh (js_heap (snd s')) = Suc (fresh (js_heap w))"
    and "pending (snd s') = 1"
    and len: "length M = 16"
    and s': "s' = frame L t (sc, w\<lparr>pending := 0\<rparr>)"
    by (rule core)+
  let ?P = "projectionMatrix sc" and ?Mr = "modelViewProjectionMatrix sc"
  let ?g = "getTransformationMatrix L ?P ?Mr t (js_heap w)"
  have g1: "fst ?g = ?Mr" by (rule getTransformationMatrix_ref)
  have g2: "cells (snd ?g) ?Mr = M"
    using running_loop_running [OF run] getTransformationMatrix_cells [OF L, of ?P "js_heap w" ?Mr t]
    by (simp add: M_def loop_running_def Let_def)
  from run have ub: "objects w (uniformBuffer sc) = Some (Buffer 64 [UNIFORM, COPY_DST] False)"
    and lub: "length (mem w (uniformBuffer sc)) = 16"
    and vb: "mem w (verticesBuffer sc) = arr" and ne: "verticesBuffer sc \<noteq> uniformBuffer sc"
    and ids: "uniformBindGroup sc < next_id w" "uniformBuffer sc < next_id w"
      "pipeline sc < next_id w" "verticesBuffer sc < next_id w"
      "depth_view (renderPassDescriptor sc) < next_id w"
    and ov: "objects w (verticesBuffer sc) = Some (Buffer (byteLength arr) [VERTEX] True)"
    and od: "objects w (depth_view (renderPassDescriptor sc)) = Some (TextureView (depthTexture sc))"
    by (simp_all add: running_def Let_def)
  from run obtain l
    where bg: "objects w (uniformBindGroup sc) = Some (BindGroup l [(0, uniformBuffer sc)])"
    by (auto simp: running_def Let_def)
  from run obtain vm fm
    where pl: "objects w (pipeline sc) = Some (RenderPipeline (pipeline_descriptor p vm fm))"
    by (auto simp: running_def Let_def)
  have valid: "write_valid (objects w (uniformBuffer sc)) 0 M"
    by (simp add: write_valid_def ub byteLength_def len)
  have wr: "write_at 0 M (mem w (uniformBuffer sc)) = M"
    by (rule write_at_all) (simp add: lub len)
  note defs = frame_def Let_def split_def g1 g2 queue_writeBuffer_def valid wr
    getCurrentTexture_def createView_def create_def queue_submit_def emit_def
    requestAnimationFrame_def tick_pass_def tick_commands_def tick_events_def tick_draw_def
  show "rendered (snd s') = rendered w @ [tick_draw sc (next_id w) M arr]"
    using ids ne
    by (simp add: s' defs exec_command_buffer_def no_pass_def group_data_def bg vb pl ov od
        pass_valid_def is_view_def is_pipeline_def is_bind_group_def is_vertex_buffer_def)
  show "mem (snd s') = (mem w)(uniformBuffer sc := M)"
    by (simp add: s' defs)
qed

section \<open>Lemmas on successive ticks\<close>

lemma refresh_running:
  assumes L: "mat4_lib L" and run: "running L arr p (sc, w)"
  shows "running L arr p (refresh L t (sc, w))"
proof -
  define s' where "s' = refresh L t (sc, w)"
  note fe = frame_effect [OF L run, of t, folded s'_def]
  note fs = fe(1) fe(4) fe(5) fe(6) fe(7) fe(8) fe(9) fe(10)
  from run obtain vm fm
    where pl: "vm < next_id w" "fm < next_id w"
      "objects w vm = Some (ShaderModule (basicVertWgsl p))"
      "objects w fm = Some (ShaderModule (vertexPositionColorWgsl p))"
      "objects w (pipeline sc) = Some (RenderPipeline (pipeline_descriptor p vm fm))"
    by (auto simp: running_def Let_def)
  from run obtain l where l: "l < next_id w" "objects w l = Some (BindGroupLayout (pipeline sc) 0)"
      "objects w (uniformBindGroup sc) = Some (BindGroup l [(0, uniformBuffer sc)])"
    by (auto simp: running_def Let_def)
  from run have rest: "verticesBuffer sc < next_id w" "pipeline sc < next_id w"
      "depthTexture sc < next_id w" "uniformBuffer sc < next_id w"
      "uniformBindGroup sc < next_id w" "depth_view (renderPassDescriptor sc) < next_id w"
      "verticesBuffer sc \<noteq> uniformBuffer sc"
      "objects w (verticesBuffer sc) = Some (Buffer (byteLength arr) [VERTEX] True)"
      "mem w (verticesBuffer sc) = arr"
      "objects w (depthTexture sc) =
         Some (Texture (width (canvas p)) (height (canvas p)) ''depth24plus'' [RENDER_ATTACHMENT])"
      "objects w (uniformBuffer sc) = Some (Buffer 64 [UNIFORM, COPY_DST] False)"
      "objects w (depth_view (renderPassDescriptor sc)) = Some (TextureView (depthTexture sc))"
      "(renderPassDescriptor sc)\<lparr>color_view := None\<rparr> =
         initial_renderPassDescriptor (depth_view (renderPassDescriptor sc))"
      "projectionMatrix sc < fresh (js_heap w)" "modelViewProjectionMatrix sc < fresh (js_heap w)"
      "projectionMatrix sc \<noteq> modelViewProjectionMatrix sc"
      "cells (js_heap w) (projectionMatrix sc) =
         projection_of L (width (canvas p) / height (canvas p))"
    by (simp_all add: running_def Let_def)
  have ex1: "\<exists>vm fm. vm < Suc (Suc (next_id w)) \<and> fm < Suc (Suc (next_id w)) \<and>
      ((objects w)(next_id w := Some CanvasTexture,
         Suc (next_id w) := Some (TextureView (next_id w)))) vm =
         Some (ShaderModule (basicVertWgsl p)) \<and>
      ((objects w)(next_id w := Some CanvasTexture,
         Suc (next_id w) := Some (TextureView (next_id w)))) fm =
         Some (ShaderModule (vertexPositionColorWgsl p)) \<and>
      objects w (pipeline sc) = Some (RenderPipeline (pipeline_descriptor p vm fm))"
    using pl by (intro exI [of _ vm] exI [of _ fm]) simp
  have ex2: "\<exists>l'. l' < Suc (Suc (next_id w)) \<and>
      ((objects w)(next_id w := Some CanvasTexture, Suc (next_id w) := Some (TextureView (next_id w)))) l' =
         Some (BindGroupLayout (pipeline sc) 0) \<and>
      objects w (uniformBindGroup sc) = Some (BindGroup l' [(0, uniformBuffer sc)])"
    using l by (intro exI [of _ l]) simp
  have "running L arr p s'"
    unfolding running_def Let_def
    using rest fe(11) ex1 ex2
    by (simp add: fs tick_pass_def)
  then show ?thesis by (simp add: s'_def)
qed

section \<open>Lemmas on successive ticks\<close>

lemma tick_pass_again [simp]:
  "tick_pass (sc\<lparr>renderPassDescriptor := tick_pass sc v\<rparr>) v' = tick_pass sc v'"
  by (simp add: tick_pass_def)

lemma color_view_again [simp]:
  "(tick_pass sc v)\<lparr>color_view := v'\<rparr> = (renderPassDescriptor sc)\<lparr>color_view := v'\<rparr>"
  by (simp add: tick_pass_def)

lemma tick_events_again [simp]:
  "tick_events (sc\<lparr>renderPassDescriptor := tick_pass sc v\<rparr>) n m = tick_events sc n m"
  by (simp add: tick_events_def tick_commands_def)

lemma tick_draw_again [simp]:
  "tick_draw (sc\<lparr>renderPassDescriptor := tick_pass sc v\<rparr>) n m xs = tick_draw sc n m xs"
  by (simp add: tick_draw_def)

lemma ticks_events_again [simp]:
  "ticks_events L P (sc\<lparr>renderPassDescriptor := tick_pass sc v\<rparr>) n ts = ticks_events L P sc n ts"
  by (induction ts arbitrary: n) simp_all

lemma ticks_draws_again [simp]:
  "ticks_draws L P (sc\<lparr>renderPassDescriptor := tick_pass sc v\<rparr>) n xs ts = ticks_draws L P sc n xs ts"
  by (induction ts arbitrary: n) simp_all

lemma run_ticks_loop_running:
  assumes "mat4_lib L" and "loop_running L p s"
  shows "loop_running L p (run_ticks L ts s)"
  using assms(2)
proof (induction ts arbitrary: s)
  case Nil
  then show ?case by simp
next
  case (Cons t ts)
  from Cons.prems have "loop_running L p (refresh L t s)"
    using refresh_loop_running [OF assms(1), of p "fst s" "snd s" t] by simp
  then show ?case by (simp add: Cons.IH)
qed

lemma run_ticks_scope:
  assumes L: "mat4_lib L" and run: "loop_running L p (sc, w)"
  shows "\<exists>v. fst (run_ticks L ts (sc, w)) =
            sc\<lparr>renderPassDescriptor := (renderPassDescriptor sc)\<lparr>color_view := v\<rparr>\<rparr>"
  using run
proof (induction ts arbitrary: sc w)
  case Nil
  have "sc = sc\<lparr>renderPassDescriptor :=
      (renderPassDescriptor sc)\<lparr>color_view := color_view (renderPassDescriptor sc)\<rparr>\<rparr>"
    by simp
  then have "\<exists>v. sc = sc\<lparr>renderPassDescriptor := (renderPassDescriptor sc)\<lparr>color_view := v\<rparr>\<rparr>"
    by (rule exI)
  then show ?case by simp
next
  case (Cons t ts)
  define s1 where "s1 = refresh L t (sc, w)"
  note fe = frame_core_effect [OF L Cons.prems, of t, folded s1_def]
  have "loop_running L p s1"
    unfolding s1_def by (rule refresh_loop_running [OF L Cons.prems])
  then have r1: "loop_running L p (fst s1, snd s1)" by simp
  note IH = Cons.IH [OF r1]
  have rt: "run_ticks L (t # ts) (sc, w) = run_ticks L ts (fst s1, snd s1)"
    by (simp add: s1_def)
  from IH show ?case
    unfolding rt by (simp add: fe(1))
qed

lemma run_ticks_running:
  assumes "mat4_lib L" and "running L arr p s"
  shows "running L arr p (run_ticks L ts s)"
  using assms(2)
proof (induction ts arbitrary: s)
  case Nil
  then show ?case by simp
next
  case (Cons t ts)
  from Cons.prems have "running L arr p (refresh L t s)"
    using refresh_running [OF assms(1), of arr p "fst s" "snd s" t] by simp
  then show ?case by (simp add: Cons.IH)
qed

lemma run_ticks_effect:
  assumes L: "mat4_lib L" and run: "running L arr p (sc, w)"
  defines "P \<equiv> projection_of L (width (canvas p) / height (canvas p))"
  shows "(\<exists>v. fst (run_ticks L ts (sc, w)) =
            sc\<lparr>renderPassDescriptor := (renderPassDescriptor sc)\<lparr>color_view := v\<rparr>\<rparr>) \<and>
     events (snd (run_ticks L ts (sc, w))) = events w @ ticks_events L P sc (next_id w) ts \<and>
     rendered (snd (run_ticks L ts (sc, w))) = rendered w @ ticks_draws L P sc (next_id w) arr ts \<and>
     next_id (snd (run_ticks L ts (sc, w))) = next_id w + 2 * length ts \<and>
     (\<forall>i<next_id w. objects (snd (run_ticks L ts (sc, w))) i = objects w i) \<and>
     (\<forall>b. b \<noteq> uniformBuffer sc \<longrightarrow> mem (snd (run_ticks L ts (sc, w))) b = mem w b)"
  using run
proof (induction ts arbitrary: sc w)
  case Nil
  have "sc = sc\<lparr>renderPassDescriptor :=
      (renderPassDescriptor sc)\<lparr>color_view := color_view (renderPassDescriptor sc)\<rparr>\<rparr>"
    by simp
  then have "\<exists>v. sc = sc\<lparr>renderPassDescriptor := (renderPassDescriptor sc)\<lparr>color_view := v\<rparr>\<rparr>"
    by (rule exI)
  then show ?case by simp
next
  case (Cons t ts)
  define s1 where "s1 = refresh L t (sc, w)"
  note fe = frame_effect [OF L Cons.prems, of t, folded s1_def P_def]
  have "running L arr p s1"
    unfolding s1_def by (rule refresh_running [OF L Cons.prems])
  then have r1: "running L arr p (fst s1, snd s1)" by simp
  note IH = Cons.IH [OF r1]
  have rt: "run_ticks L (t # ts) (sc, w) = run_ticks L ts (fst s1, snd s1)"
    by (simp add: s1_def)
  from IH show ?case
    unfolding rt
    by (simp add: fe(1) fe(2) fe(3) fe(4) fe(5) fe(6))
qed

section \<open>Lemmas on the module initialisation\<close>

lemma handshake_not_ok:
  assumes "\<not> handshake_ok e"
  shows "\<exists>err w. handshake e dims run w0 = (Inl err, w) \<and> pending w = pending w0 \<and>
     rendered w = rendered w0 \<and> js_heap w = js_heap w0 \<and> objects w = objects w0 \<and>
     mem w = mem w0 \<and> next_id w = next_id w0 \<and>
     RequestAnimationFrame \<notin> set (drop (length (events w0)) (events w))"
  using assms
  by (auto simp: handshake_ok_def handshake_def Let_def split: promise.splits)

lemma handshake_is_ok:
  assumes "handshake_ok e"
  shows "\<exists>vert frag. fetch_text e ''/src/shaders/basic_vert.wgsl'' = Fulfilled vert \<and>
     fetch_text e ''/src/shaders/vertexPositionColor_frag.wgsl'' = Fulfilled frag \<and>
     handshake e dims run w0 =
       run vert frag (getPreferredCanvasFormat e)
         \<lparr> width = canvas_dim e (fst dims), height = canvas_dim e (snd dims) \<rparr>
         (emit (Configure (getPreferredCanvasFormat e) ''premultiplied'')
            (emit (Fetch ''/src/shaders/vertexPositionColor_frag.wgsl'')
               (emit (Fetch ''/src/shaders/basic_vert.wgsl'') w0)))"
  using assms
  by (auto simp: handshake_ok_def handshake_def Let_def split: promise.splits)

lemma handshake_same_error:
  fixes run :: "string \<Rightarrow> string \<Rightarrow> string \<Rightarrow> canvas \<Rightarrow> world \<Rightarrow> (error + 'a) \<times> world"
    and run' :: "string \<Rightarrow> string \<Rightarrow> string \<Rightarrow> canvas \<Rightarrow> world \<Rightarrow> (error + 'b) \<times> world"
  assumes "\<not> handshake_ok e"
  shows "\<exists>err. fst (handshake e dims run w0) = Inl err \<and> fst (handshake e dims' run' w0) = Inl err"
  using assms
  by (auto simp: handshake_ok_def handshake_def Let_def split: promise.splits)


text \<open>After the handshake, index.ts is main in the world the handshake leaves.\<close>

lemma index_ts_main:
  assumes "handshake_ok e"
  shows "\<exists>p. canvas p = \<lparr> width = canvas_dim e (innerWidth e - 50 * devicePixelRatio e),
                         height = canvas_dim e (innerHeight e - 50 * devicePixelRatio e) \<rparr> \<and>
     index_ts L e arr w0 = main L (throws e) (invalid e) arr p
       (emit (Configure (getPreferredCanvasFormat e) ''premultiplied'')
          (emit (Fetch ''/src/shaders/vertexPositionColor_frag.wgsl'')
             (emit (Fetch ''/src/shaders/basic_vert.wgsl'') w0)))"
proof -
  let ?dims = "(innerWidth e - 50 * devicePixelRatio e, innerHeight e - 50 * devicePixelRatio e)"
  let ?w = "emit (Configure (getPreferredCanvasFormat e) ''premultiplied'')
            (emit (Fetch ''/src/shaders/vertexPositionColor_frag.wgsl'')
               (emit (Fetch ''/src/shaders/basic_vert.wgsl'') w0))"
  from handshake_is_ok [OF assms] obtain vert frag
    where h: "index_ts L e arr w0 =
      main L (throws e) (invalid e) arr \<lparr> basicVertWgsl = vert, vertexPositionColorWgsl = frag,
        textureFormat = getPreferredCanvasFormat e,
        canvas = \<lparr> width = canvas_dim e (fst ?dims), height = canvas_dim e (snd ?dims) \<rparr> \<rparr> ?w"
    unfolding index_ts_def by blast
  show ?thesis
    by (rule exI [of _ "\<lparr> basicVertWgsl = vert, vertexPositionColorWgsl = frag,
        textureFormat = getPreferredCanvasFormat e,
        canvas = \<lparr> width = canvas_dim e (fst ?dims), height = canvas_dim e (snd ?dims) \<rparr> \<rparr>"])
      (simp add: h)
qed

lemma index_ts_running:
  assumes "env_ok e" and "mat4_lib L" and "pending w0 = 0"
  shows "\<exists>sc w p. index_ts L e arr w0 = (Inr sc, w) \<and> running L arr p (sc, w) \<and>
     canvas p = \<lparr> width = canvas_dim e (innerWidth e - 50 * devicePixelRatio e),
                  height = canvas_dim e (innerHeight e - 50 * devicePixelRatio e) \<rparr> \<and>
     pending w = 1 \<and> rendered w = rendered w0 \<and>
     events w = events w0 @ [Fetch ''/src/shaders/basic_vert.wgsl'',
       Fetch ''/src/shaders/vertexPositionColor_frag.wgsl'',
       Configure (getPreferredCanvasFormat e) ''premultiplied'', RequestAnimationFrame]"
proof -
  from assms(1) have hs: "handshake_ok e" and nt: "list_all (\<lambda>c. \<not> throws e c) all_calls"
    and ni: "list_all (\<lambda>c. \<not> invalid e c) all_calls"
    by (simp_all add: env_ok_def)
  let ?w = "emit (Configure (getPreferredCanvasFormat e) ''premultiplied'')
            (emit (Fetch ''/src/shaders/vertexPositionColor_frag.wgsl'')
               (emit (Fetch ''/src/shaders/basic_vert.wgsl'') w0))"
  from index_ts_main [OF hs, of L arr w0] obtain p
    where cv: "canvas p = \<lparr> width = canvas_dim e (innerWidth e - 50 * devicePixelRatio e),
                  height = canvas_dim e (innerHeight e - 50 * devicePixelRatio e) \<rparr>"
      and h: "index_ts L e arr w0 = main L (throws e) (invalid e) arr p ?w"
    by blast
  have p0: "pending ?w = 0" using assms(3) by simp
  from main_running [OF nt ni p0 assms(2), of arr p] obtain sc w
    where m: "main L (throws e) (invalid e) arr p ?w = (Inr sc, w)"
      and r: "running L arr p (sc, w)"
      and ev: "events w = events ?w @ [RequestAnimationFrame]"
      and rd: "rendered w = rendered ?w"
    by blast
  from r have pw: "pending w = 1" by (simp add: running_def Let_def)
  have 1: "index_ts L e arr w0 = (Inr sc, w)" by (simp add: h m)
  have 2: "rendered w = rendered w0" by (simp add: rd)
  have 3: "events w = events w0 @ [Fetch ''/src/shaders/basic_vert.wgsl'',
       Fetch ''/src/shaders/vertexPositionColor_frag.wgsl'',
       Configure (getPreferredCanvasFormat e) ''premultiplied'', RequestAnimationFrame]"
    by (simp add: ev)
  from 1 r cv pw 2 3 show ?thesis by blast
qed





section \<open>Lemmas on the states the loop reaches\<close>

lemma reachable_running:
  assumes "mat4_lib L" and "pending w0 = 0" and "main L thr inval arr p w0 = (Inr sc0, w1)"
    and "\<forall>c. \<not> inval c" and "run_ticks L ts (sc0, w1) = (sc, w)"
  shows "running L arr p (sc, w)"
  using run_ticks_running [OF assms(1) main_started(1) [OF assms(3,4,2,1)], of ts] assms(5)
  by simp

lemma reachable_loop_running:
  assumes "mat4_lib L" and "pending w0 = 0" and "main L thr inval arr p w0 = (Inr sc0, w1)"
    and "run_ticks L ts (sc0, w1) = (sc, w)"
  shows "loop_running L p (sc, w)"
  using run_ticks_loop_running [OF assms(1) main_loop_started [OF assms(3,2,1)], of ts] assms(4)
  by simp

lemma loop_running_value:
  assumes "mat4_lib L" and "loop_running L p (sc, w)"
  shows "cells (snd (getTransformationMatrix L (projectionMatrix sc)
                       (modelViewProjectionMatrix sc) t (js_heap w)))
           (modelViewProjectionMatrix sc) =
         mvp_at L (projection_of L (width (canvas p) / height (canvas p))) t"
proof -
  let ?P = "projectionMatrix sc" and ?M = "modelViewProjectionMatrix sc"
  from assms(2) have "?P < fresh (js_heap w)" "?M < fresh (js_heap w)" "?P \<noteq> ?M"
    "length (cells (js_heap w) ?M) = 16"
    "cells (js_heap w) ?P = projection_of L (width (canvas p) / height (canvas p))"
    by (simp_all add: loop_running_def Let_def)
  then show ?thesis
    using getTransformationMatrix_cells [OF assms(1), of ?P "js_heap w" ?M t] by simp
qed

lemma length_mul4 [simp]: "length (mul4 a b) = 16"
  by (simp add: mul4_def)

lemma stub_started:
  "\<exists>sc0 w1. main real_mat4 (\<lambda>c. False) (\<lambda>c. False) stub_mesh stub_props empty_world = (Inr sc0, w1)"
  by (rule main_succeeds) (simp add: all_calls_def)

lemma reachable_scope:
  assumes "mat4_lib L" and "pending w0 = 0" and "main L thr inval arr p w0 = (Inr sc0, w1)"
    and "run_ticks L ts (sc0, w1) = (sc, w)"
  shows "\<exists>v. sc = sc0\<lparr>renderPassDescriptor := (renderPassDescriptor sc0)\<lparr>color_view := v\<rparr>\<rparr>"
  using run_ticks_scope [OF assms(1) main_loop_started [OF assms(3,2,1)], of ts] assms(4)
  by simp

lemma tick_pass_initial:
  assumes "(renderPassDescriptor sc)\<lparr>color_view := None\<rparr> = initial_renderPassDescriptor dv"
  shows "tick_pass sc v = (initial_renderPassDescriptor dv)\<lparr>color_view := Some v\<rparr>"
proof -
  have "tick_pass sc v = ((renderPassDescriptor sc)\<lparr>color_view := None\<rparr>)\<lparr>color_view := Some v\<rparr>"
    by (simp add: tick_pass_def)
  then show ?thesis by (simp only: assms)
qed

lemma group0_ticks_draws:
  "map drawn_group0 (ticks_draws L P sc n xs ts) = map (\<lambda>t. [(0, mvp_at L P t)]) ts"
  by (induction ts arbitrary: n) (simp_all add: tick_draw_def)

lemma vertices_ticks_draws:
  "map drawn_vertices (ticks_draws L P sc n xs ts) = map (\<lambda>t. Some xs) ts"
  by (induction ts arbitrary: n) (simp_all add: tick_draw_def)

lemma requests_ticks_events:
  "length (filter (\<lambda>e. e = RequestAnimationFrame) (ticks_events L P sc n ts)) = length ts"
  by (induction ts arbitrary: n) (simp_all add: tick_events_def)

section \<open>The value of the transformation matrix\<close>

text \<open>
  C1 (counterexample). The claim takes \<open>t' = wall-clock seconds / 5000\<close>. In a window
  of 850 by 650 (a canvas of 800 by 600), with the library in real arithmetic, at
  \<open>Date.now() = 5000\<close>, that is 5 seconds, the matrix getTransformationMatrix returns is
  not the matrix of the claim: the code rotates about \<open>(sin 1, cos 1, 0)\<close>, the claim
  about \<open>(sin (1/1000), cos (1/1000), 0)\<close>.
\<close>

theorem getTransformationMatrix_seconds_counterexample:
  "case index_ts real_mat4 stub_env stub_mesh empty_world of
     (Inr sc, w) \<Rightarrow>
       cells (snd (getTransformationMatrix real_mat4 (projectionMatrix sc)
                    (modelViewProjectionMatrix sc) 5000 (js_heap w)))
         (fst (getTransformationMatrix real_mat4 (projectionMatrix sc)
                    (modelViewProjectionMatrix sc) 5000 (js_heap w)))
       \<noteq> spec_computeMVP real_mat4 (5000 / 1000) (800 / 600)
   | (Inl e, w) \<Rightarrow> False"
proof -
  have ok: "env_ok stub_env"
    by (simp add: env_ok_def handshake_ok_def stub_env_def all_calls_def)
  have p0: "pending empty_world = 0" by (simp add: empty_world_def)
  from index_ts_running [OF ok mat4_lib_real_mat4 p0, of stub_mesh]
  obtain sc w p where r: "index_ts real_mat4 stub_env stub_mesh empty_world = (Inr sc, w)"
    and run: "running real_mat4 stub_mesh p (sc, w)"
    and cv: "canvas p = \<lparr> width = 800, height = 600 \<rparr>"
    by (auto simp: stub_env_def)
  let ?P = "projectionMatrix sc" and ?M = "modelViewProjectionMatrix sc"
  from run have "?P < fresh (js_heap w)" "?M < fresh (js_heap w)" "?P \<noteq> ?M"
    "length (cells (js_heap w) ?M) = 16"
    "cells (js_heap w) ?P = projection_of real_mat4 (800 / 600)"
    by (simp_all add: running_def Let_def cv)
  then have val: "cells (snd (getTransformationMatrix real_mat4 ?P ?M 5000 (js_heap w))) ?M =
      mvp_at real_mat4 (projection_of real_mat4 (800 / 600)) 5000"
    using getTransformationMatrix_cells [OF mat4_lib_real_mat4, of ?P "js_heap w" ?M 5000]
    by simp
  have one: "sin x * sin x + cos x * cos x = (1::real)" for x
    using sin_cos_squared_add3 [of x] by (simp add: add.commute)
  define T :: real where "T = tan (3 * pi / 10)"
  define c :: real where "c = cos 1"
  define c' :: real where "c' = cos (1 / 1000)"
  have T: "T \<noteq> 0"
    unfolding T_def using tan_gt_zero [of "3 * pi / 10"] pi_gt_zero by simp
  have c0: "0 \<le> c"
    unfolding c_def using pi_ge_two by (intro cos_ge_zero) auto
  have c1: "c < 1"
    unfolding c_def using cos_monotone_0_pi [of 0 1] pi_ge_two by simp
  have cc: "c < c'"
    unfolding c_def c'_def using cos_monotone_0_pi [of "1 / 1000" 1] pi_ge_two by simp
  have sq: "c * c < c' * c'"
    using c0 cc by (intro mult_strict_mono') auto
  have ne: "T * (c * c + (1 - c * c) * c) \<noteq> T * (c' * c' + (1 - c' * c') * c)"
  proof
    assume "T * (c * c + (1 - c * c) * c) = T * (c' * c' + (1 - c' * c') * c)"
    with T have "c * c + (1 - c * c) * c = c' * c' + (1 - c' * c') * c" by simp
    then have "(c * c - c' * c') * (1 - c) = 0" by (simp add: algebra_simps)
    with sq c1 show False by simp
  qed
  have l: "mvp_at real_mat4 (projection_of real_mat4 (800 / 600)) 5000 ! 5 =
      T * (c * c + (1 - c * c) * c)"
    by (simp add: mvp_at_def viewMatrix_at_def projection_of_def real_mat4_def mul4_def
        perspective4_def translation4_def rotation4_def vec3_fromValues_def Let_def one
        T_def c_def)
  have r': "spec_computeMVP real_mat4 (5000 / 1000) (800 / 600) ! 5 =
      T * (c' * c' + (1 - c' * c') * c)"
    by (simp add: spec_computeMVP_def real_mat4_def mul4_def
        perspective4_def translation4_def rotation4_def vec3_fromValues_def Let_def one
        T_def c_def c'_def)
  from ne l r' have "mvp_at real_mat4 (projection_of real_mat4 (800 / 600)) 5000 \<noteq>
      spec_computeMVP real_mat4 (5000 / 1000) (800 / 600)"
    by metis
  then show ?thesis
    by (simp add: r getTransformationMatrix_ref val)
qed

text \<open>
  C1 (amended). After main has returned and after any number of ticks, at every call with
  \<open>Date.now() = dateNow\<close> milliseconds, the array getTransformationMatrix returns holds
  sixteen numbers: the product (by the library's \<open>multiply\<close>) of the projection, which is
  the library's perspective with field of view \<open>2 * pi / 5\<close>, the aspect canvas width by
  canvas height, near 1 and far 100, and of the view, which is the identity translated by
  \<open>(0, 0, -10)\<close> and then rotated by 1 radian about \<open>(sin t', cos t', 0)\<close>, where
  \<open>t' = dateNow / 5000\<close> is the wall clock in milliseconds by 5000, that is the seconds by
  5. The order of the sixteen numbers is the library's.
\<close>

theorem getTransformationMatrix_value:
  assumes "mat4_lib L" and "pending w0 = 0" and "height (canvas p) \<noteq> 0"
    and "main L thr inval arr p w0 = (Inr sc0, w1)"
    and "run_ticks L ts (sc0, w1) = (sc, w)"
    and "getTransformationMatrix L (projectionMatrix sc) (modelViewProjectionMatrix sc)
           dateNow (js_heap w) = (r, h)"
  shows "cells h r =
           mat4_multiply L
             (mat4_perspective L (2 * pi / 5) (width (canvas p) / height (canvas p)) 1 100)
             (mat4_rotate L
                (mat4_translate L (mat4_identity L) (vec3_fromValues 0 0 (-10)))
                (vec3_fromValues (sin (dateNow / 5000)) (cos (dateNow / 5000)) 0) 1) \<and>
         length (cells h r) = 16"
proof -
  have run: "loop_running L p (sc, w)"
    by (rule reachable_loop_running [OF assms(1,2,4,5)])
  from assms(6) have r: "r = modelViewProjectionMatrix sc"
    using getTransformationMatrix_ref
      [of L "projectionMatrix sc" "modelViewProjectionMatrix sc" dateNow "js_heap w"]
    by simp
  from loop_running_value [OF assms(1) run, of dateNow] assms(6)
  have "cells h r = mvp_at L (projection_of L (width (canvas p) / height (canvas p))) dateNow"
    by (simp add: r)
  then show ?thesis
    using assms(1) by (simp add: mvp_at_def viewMatrix_at_def projection_of_def mat4_lib_def)
qed

theorem getTransformationMatrix_value_witness:
  "\<exists>sc0 w1 sc w r h.
     mat4_lib real_mat4 \<and> pending empty_world = 0 \<and> height (canvas stub_props) \<noteq> 0 \<and>
     main real_mat4 (\<lambda>c. False) (\<lambda>c. False) stub_mesh stub_props empty_world = (Inr sc0, w1) \<and>
     run_ticks real_mat4 [1000, 1016] (sc0, w1) = (sc, w) \<and>
     getTransformationMatrix real_mat4 (projectionMatrix sc) (modelViewProjectionMatrix sc)
       5000 (js_heap w) = (r, h) \<and>
     cells h r =
       mul4 (perspective4 (2 * pi / 5) (800 / 600) 1 100)
         (mul4 (mul4 [1, 0, 0, 0, 0, 1, 0, 0, 0, 0, 1, 0, 0, 0, 0, 1] (translation4 [0, 0, -10]))
            (rotation4 [sin 1, cos 1, 0] 1)) \<and>
     length (cells h r) = 16"
proof -
  from stub_started obtain sc0 w1
    where m: "main real_mat4 (\<lambda>c. False) (\<lambda>c. False) stub_mesh stub_props empty_world = (Inr sc0, w1)"
    by blast
  obtain sc w where t: "run_ticks real_mat4 [1000, 1016] (sc0, w1) = (sc, w)"
    by (cases "run_ticks real_mat4 [1000, 1016] (sc0, w1)")
  obtain r h where g: "getTransformationMatrix real_mat4 (projectionMatrix sc)
      (modelViewProjectionMatrix sc) 5000 (js_heap w) = (r, h)"
    by (cases "getTransformationMatrix real_mat4 (projectionMatrix sc)
      (modelViewProjectionMatrix sc) 5000 (js_heap w)")
  have p0: "pending empty_world = 0" by (simp add: empty_world_def)
  have h0: "height (canvas stub_props) \<noteq> 0" by (simp add: stub_props_def)
  from getTransformationMatrix_value [OF mat4_lib_real_mat4 p0 h0 m t g]
  have "cells h r =
       mul4 (perspective4 (2 * pi / 5) (800 / 600) 1 100)
         (mul4 (mul4 [1, 0, 0, 0, 0, 1, 0, 0, 0, 0, 1, 0, 0, 0, 0, 1] (translation4 [0, 0, -10]))
            (rotation4 [sin 1, cos 1, 0] 1)) \<and>
     length (cells h r) = 16"
    by (simp add: real_mat4_def stub_props_def vec3_fromValues_def)
  with mat4_lib_real_mat4 p0 h0 m t g show ?thesis by blast
qed

section \<open>Determinism of the transformation matrix\<close>

text \<open>
  C6. The output of getTransformationMatrix depends on the time and the aspect only: take
  two runs of the program, started in any two worlds with canvases of the same aspect,
  each after any number of ticks at any times; two calls at the same \<open>Date.now()\<close> return
  arrays with the same sixteen numbers. Nothing else that the earlier calls left behind
  enters the result. (Numbers are real numbers here, so the same numbers is what
  bit-identical means in this development.)
\<close>

theorem getTransformationMatrix_deterministic:
  assumes "mat4_lib L" and "pending w0 = 0" and "pending w0' = 0"
    and "main L thr inval arr p w0 = (Inr sc0, w1)"
    and "main L thr' inval' arr' p' w0' = (Inr sc0', w1')"
    and "width (canvas p) / height (canvas p) = width (canvas p') / height (canvas p')"
    and "run_ticks L ts (sc0, w1) = (sc, w)"
    and "run_ticks L ts' (sc0', w1') = (sc', w')"
    and "getTransformationMatrix L (projectionMatrix sc) (modelViewProjectionMatrix sc)
           dateNow (js_heap w) = (r, h)"
    and "getTransformationMatrix L (projectionMatrix sc') (modelViewProjectionMatrix sc')
           dateNow (js_heap w') = (r', h')"
  shows "cells h r = cells h' r' \<and> length (cells h r) = 16"
proof -
  have run: "loop_running L p (sc, w)"
    by (rule reachable_loop_running [OF assms(1,2,4,7)])
  have run': "loop_running L p' (sc', w')"
    by (rule reachable_loop_running [OF assms(1,3,5,8)])
  from assms(9) have r: "r = modelViewProjectionMatrix sc"
    using getTransformationMatrix_ref
      [of L "projectionMatrix sc" "modelViewProjectionMatrix sc" dateNow "js_heap w"]
    by simp
  from assms(10) have r': "r' = modelViewProjectionMatrix sc'"
    using getTransformationMatrix_ref
      [of L "projectionMatrix sc'" "modelViewProjectionMatrix sc'" dateNow "js_heap w'"]
    by simp
  from loop_running_value [OF assms(1) run, of dateNow] assms(9)
  have a: "cells h r = mvp_at L (projection_of L (width (canvas p) / height (canvas p))) dateNow"
    by (simp add: r)
  from loop_running_value [OF assms(1) run', of dateNow] assms(10)
  have b: "cells h' r' = mvp_at L (projection_of L (width (canvas p') / height (canvas p'))) dateNow"
    by (simp add: r')
  from a b assms(6) assms(1) show ?thesis
    by (simp add: mvp_at_def mat4_lib_def)
qed

theorem getTransformationMatrix_deterministic_witness:
  "\<exists>sc0 w1 sc w sc' w' r h r' h'.
     mat4_lib real_mat4 \<and> pending empty_world = 0 \<and>
     main real_mat4 (\<lambda>c. False) (\<lambda>c. False) stub_mesh stub_props empty_world = (Inr sc0, w1) \<and>
     width (canvas stub_props) / height (canvas stub_props) =
       width (canvas stub_props) / height (canvas stub_props) \<and>
     run_ticks real_mat4 [] (sc0, w1) = (sc, w) \<and>
     run_ticks real_mat4 [1000, 1016, 1033] (sc0, w1) = (sc', w') \<and>
     getTransformationMatrix real_mat4 (projectionMatrix sc) (modelViewProjectionMatrix sc)
       5000 (js_heap w) = (r, h) \<and>
     getTransformationMatrix real_mat4 (projectionMatrix sc') (modelViewProjectionMatrix sc')
       5000 (js_heap w') = (r', h') \<and>
     cells h r = cells h' r' \<and> length (cells h r) = 16"
proof -
  from stub_started obtain sc0 w1
    where m: "main real_mat4 (\<lambda>c. False) (\<lambda>c. False) stub_mesh stub_props empty_world = (Inr sc0, w1)"
    by blast
  obtain sc w where t: "run_ticks real_mat4 [] (sc0, w1) = (sc, w)"
    by (cases "run_ticks real_mat4 [] (sc0, w1)")
  obtain sc' w' where t': "run_ticks real_mat4 [1000, 1016, 1033] (sc0, w1) = (sc', w')"
    by (cases "run_ticks real_mat4 [1000, 1016, 1033] (sc0, w1)")
  obtain r h where g: "getTransformationMatrix real_mat4 (projectionMatrix sc)
      (modelViewProjectionMatrix sc) 5000 (js_heap w) = (r, h)"
    by (cases "getTransformationMatrix real_mat4 (projectionMatrix sc)
      (modelViewProjectionMatrix sc) 5000 (js_heap w)")
  obtain r' h' where g': "getTransformationMatrix real_mat4 (projectionMatrix sc')
      (modelViewProjectionMatrix sc') 5000 (js_heap w') = (r', h')"
    by (cases "getTransformationMatrix real_mat4 (projectionMatrix sc')
      (modelViewProjectionMatrix sc') 5000 (js_heap w')")
  have p0: "pending empty_world = 0" by (simp add: empty_world_def)
  have a: "width (canvas stub_props) / height (canvas stub_props) =
       width (canvas stub_props) / height (canvas stub_props)" by simp
  from getTransformationMatrix_deterministic [OF mat4_lib_real_mat4 p0 p0 m m a t t' g g']
    mat4_lib_real_mat4 p0 m t t' g g'
  show ?thesis by blast
qed

section \<open>The frame tick\<close>

text \<open>
  C2. After a construction that succeeded (main has returned, and none of its creation
  calls has failed without throwing), in any state the loop reaches, a display refresh at
  \<open>Date.now() = t\<close> is one call of \<open>frame\<close>, and the tick makes these calls, in this order: with the matrix \<open>M\<close> of time
  \<open>t\<close>, \<^verbatim>\<open>writeBuffer\<close> of \<open>M\<close>, 64 bytes, at offset 0 of the uniform buffer, which is
  64 bytes long; \<^verbatim>\<open>getCurrentTexture\<close>, which gives a texture that is a new object, and
  a view of it that is a new object as well and becomes the colour attachment; one
  \<^verbatim>\<open>submit\<close> of one command buffer with one render pass, which clears the colour to
  \<open>(0.5, 0.5, 0.5, 1.0)\<close> and the depth to 1.0, sets the pipeline, the uniform bind
  group at group 0 and the vertex buffer at slot 0, draws 36 vertices without indices and
  ends; \<^verbatim>\<open>requestAnimationFrame\<close>. After the tick the uniform buffer holds exactly the
  sixteen numbers of \<open>M\<close>.
\<close>

theorem frame_tick_contract:
  assumes "mat4_lib L" and "pending w0 = 0"
    and "main L thr inval arr p w0 = (Inr sc0, w1)" and "\<forall>c. \<not> inval c"
    and "run_ticks L ts (sc0, w1) = (sc, w)"
    and "refresh L t (sc, w) = (sc', w')"
    and "M = mvp_at L (projection_of L (width (canvas p) / height (canvas p))) t"
  shows "refresh L t (sc, w) = frame L t (sc, w\<lparr>pending := 0\<rparr>) \<and>
     events w' = events w @
       [QueueWriteBuffer (uniformBuffer sc0) 0 M,
        GetCurrentTexture (next_id w),
        QueueSubmit [[
          BeginRenderPass \<lparr> color_view = Some (Suc (next_id w)),
            clearValue = (0.5, 0.5, 0.5, 1.0), loadOp = ''clear'', storeOp = ''store'',
            depth_view = depth_view (renderPassDescriptor sc0),
            depthClearValue = 1.0, depthLoadOp = ''clear'', depthStoreOp = ''store'' \<rparr>,
          SetPipeline (pipeline sc0),
          SetBindGroup 0 (uniformBindGroup sc0),
          SetVertexBuffer 0 (verticesBuffer sc0),
          Draw 36,
          End]],
        RequestAnimationFrame] \<and>
     byteLength M = 64 \<and>
     objects w (uniformBuffer sc0) = Some (Buffer 64 [UNIFORM, COPY_DST] False) \<and>
     mem w' (uniformBuffer sc0) = M \<and>
     objects w' (next_id w) = Some CanvasTexture \<and>
     objects w' (Suc (next_id w)) = Some (TextureView (next_id w)) \<and>
     color_view (renderPassDescriptor sc') = Some (Suc (next_id w)) \<and>
     color_view (renderPassDescriptor sc) \<noteq> Some (Suc (next_id w))"
proof -
  have run: "running L arr p (sc, w)"
    by (rule reachable_running [OF assms(1,2,3,4,5)])
  from reachable_scope [OF assms(1,2,3,5)] obtain v
    where sc: "sc = sc0\<lparr>renderPassDescriptor := (renderPassDescriptor sc0)\<lparr>color_view := v\<rparr>\<rparr>"
    by blast
  note fe = frame_effect [OF assms(1) run, of t, folded assms(7), unfolded assms(6)]
  from run have d: "(renderPassDescriptor sc)\<lparr>color_view := None\<rparr> =
      initial_renderPassDescriptor (depth_view (renderPassDescriptor sc))"
    and ub: "objects w (uniformBuffer sc) = Some (Buffer 64 [UNIFORM, COPY_DST] False)"
    and cv: "case color_view (renderPassDescriptor sc) of None \<Rightarrow> True | Some v \<Rightarrow> v < next_id w"
    by (simp_all add: running_def Let_def)
  have tp: "tick_pass sc (Suc (next_id w)) =
      \<lparr> color_view = Some (Suc (next_id w)),
        clearValue = (0.5, 0.5, 0.5, 1.0), loadOp = ''clear'', storeOp = ''store'',
        depth_view = depth_view (renderPassDescriptor sc0),
        depthClearValue = 1.0, depthLoadOp = ''clear'', depthStoreOp = ''store'' \<rparr>"
    unfolding tick_pass_initial [OF d]
    by (simp add: initial_renderPassDescriptor_def sc)
  have e: "events w' = events w @ tick_events sc (next_id w) M"
    using fe(2) by simp
  have fields: "uniformBuffer sc = uniformBuffer sc0" "pipeline sc = pipeline sc0"
    "uniformBindGroup sc = uniformBindGroup sc0" "verticesBuffer sc = verticesBuffer sc0"
    by (simp_all add: sc)
  have 1: "refresh L t (sc, w) = frame L t (sc, w\<lparr>pending := 0\<rparr>)"
    using fe(12) assms(6) by simp
  have 2: "events w' = events w @
       [QueueWriteBuffer (uniformBuffer sc0) 0 M,
        GetCurrentTexture (next_id w),
        QueueSubmit [[
          BeginRenderPass \<lparr> color_view = Some (Suc (next_id w)),
            clearValue = (0.5, 0.5, 0.5, 1.0), loadOp = ''clear'', storeOp = ''store'',
            depth_view = depth_view (renderPassDescriptor sc0),
            depthClearValue = 1.0, depthLoadOp = ''clear'', depthStoreOp = ''store'' \<rparr>,
          SetPipeline (pipeline sc0),
          SetBindGroup 0 (uniformBindGroup sc0),
          SetVertexBuffer 0 (verticesBuffer sc0),
          Draw 36,
          End]],
        RequestAnimationFrame]"
    unfolding e tick_events_def tick_commands_def tp fields
    by (simp add: cubeVertexCount_def)
  have 3: "byteLength M = 64" using fe(11) by (simp add: byteLength_def)
  have 4: "objects w (uniformBuffer sc0) = Some (Buffer 64 [UNIFORM, COPY_DST] False)"
    using ub by (simp add: fields)
  have 5: "mem w' (uniformBuffer sc0) = M" using fe(4) by (simp add: fields)
  have 6: "objects w' (next_id w) = Some CanvasTexture"
    and 7: "objects w' (Suc (next_id w)) = Some (TextureView (next_id w))"
    using fe(5) by simp_all
  have 8: "color_view (renderPassDescriptor sc') = Some (Suc (next_id w))"
    using fe(1) by (simp add: tick_pass_def)
  have 9: "color_view (renderPassDescriptor sc) \<noteq> Some (Suc (next_id w))"
    using cv by (auto split: option.splits)
  from 1 2 3 4 5 6 7 8 9 show ?thesis by blast
qed

theorem frame_tick_contract_witness:
  "\<exists>sc0 w1 sc w sc' w'.
     mat4_lib real_mat4 \<and> pending empty_world = 0 \<and>
     main real_mat4 (\<lambda>c. False) (\<lambda>c. False) stub_mesh stub_props empty_world = (Inr sc0, w1) \<and>
     (\<forall>c::call. \<not> (\<lambda>c. False) c) \<and>
     run_ticks real_mat4 [1000, 1016] (sc0, w1) = (sc, w) \<and>
     refresh real_mat4 1033 (sc, w) = (sc', w') \<and>
     refresh real_mat4 1033 (sc, w) = frame real_mat4 1033 (sc, w\<lparr>pending := 0\<rparr>) \<and>
     byteLength (mvp_at real_mat4 (projection_of real_mat4 (800 / 600)) 1033) = 64 \<and>
     mem w' (uniformBuffer sc0) = mvp_at real_mat4 (projection_of real_mat4 (800 / 600)) 1033 \<and>
     color_view (renderPassDescriptor sc') = Some (Suc (next_id w))"
proof -
  from stub_started obtain sc0 w1
    where m: "main real_mat4 (\<lambda>c. False) (\<lambda>c. False) stub_mesh stub_props empty_world = (Inr sc0, w1)"
    by blast
  obtain sc w where t: "run_ticks real_mat4 [1000, 1016] (sc0, w1) = (sc, w)"
    by (cases "run_ticks real_mat4 [1000, 1016] (sc0, w1)")
  obtain sc' w' where f: "refresh real_mat4 1033 (sc, w) = (sc', w')"
    by (cases "refresh real_mat4 1033 (sc, w)")
  have p0: "pending empty_world = 0" by (simp add: empty_world_def)
  have M: "mvp_at real_mat4 (projection_of real_mat4 (800 / 600)) 1033 =
      mvp_at real_mat4
        (projection_of real_mat4 (width (canvas stub_props) / height (canvas stub_props))) 1033"
    by (simp add: stub_props_def)
  have ni: "\<forall>c::call. \<not> (\<lambda>c. False) c" by simp
  from frame_tick_contract [OF mat4_lib_real_mat4 p0 m ni t f M]
    mat4_lib_real_mat4 p0 m ni t f
  show ?thesis by blast
qed

section \<open>The order of the frames\<close>

text \<open>
  C3. After a construction that succeeded (main has returned, and none of its creation
  calls has failed without throwing) and ticks at the times \<open>ts\<close>, the calls made since the start are the
  first \<^verbatim>\<open>requestAnimationFrame\<close> of main and then, tick after tick, the four calls of
  \<open>tick_events\<close>: the write of the tick's matrix, the texture of the tick, the submission
  of the tick's draw, and one \<^verbatim>\<open>requestAnimationFrame\<close>, made after \<^verbatim>\<open>submit\<close> has
  returned. The queue executes in the order of these calls, and the draw of the \<open>N\<close>-th
  tick reads, through the bind group at group 0, binding 0, the matrix of the \<open>N\<close>-th time.
  There is one request per tick beside the request of main, and exactly one callback waits
  after every tick, so a refresh never runs two ticks.
\<close>

theorem frames_in_order:
  assumes "mat4_lib L" and "pending w0 = 0"
    and "main L thr inval arr p w0 = (Inr sc0, w1)" and "\<forall>c. \<not> inval c"
    and "run_ticks L ts (sc0, w1) = (sc, w)"
    and "P = projection_of L (width (canvas p) / height (canvas p))"
  shows "events w = events w0 @ RequestAnimationFrame # ticks_events L P sc0 (next_id w1) ts \<and>
     rendered w = rendered w0 @ ticks_draws L P sc0 (next_id w1) arr ts \<and>
     map drawn_group0 (ticks_draws L P sc0 (next_id w1) arr ts) =
       map (\<lambda>t. [(0, mvp_at L P t)]) ts \<and>
     length (filter (\<lambda>e. e = RequestAnimationFrame) (ticks_events L P sc0 (next_id w1) ts)) =
       length ts \<and>
     pending w = 1 \<and>
     refresh L t (sc, w) = frame L t (sc, w\<lparr>pending := 0\<rparr>)"
proof -
  note st = main_started [OF assms(3,4,2,1)]
  have run: "running L arr p (sc, w)"
    by (rule reachable_running [OF assms(1,2,3,4,5)])
  from run_ticks_effect [OF assms(1) st(1), of ts] assms(5)
  have "events w = events w1 @ ticks_events L P sc0 (next_id w1) ts"
    and r: "rendered w = rendered w1 @ ticks_draws L P sc0 (next_id w1) arr ts"
    by (simp_all add: assms(6))
  then have e: "events w = events w0 @ RequestAnimationFrame # ticks_events L P sc0 (next_id w1) ts"
    by (simp add: st(2))
  from run have pw: "pending w = 1" by (simp add: running_def Let_def)
  from e r pw show ?thesis
    by (simp add: st(3) group0_ticks_draws requests_ticks_events refresh_pending1)
qed

theorem frames_in_order_witness:
  "\<exists>sc0 w1 sc w.
     mat4_lib real_mat4 \<and> pending empty_world = 0 \<and>
     main real_mat4 (\<lambda>c. False) (\<lambda>c. False) stub_mesh stub_props empty_world = (Inr sc0, w1) \<and>
     (\<forall>c::call. \<not> (\<lambda>c. False) c) \<and>
     run_ticks real_mat4 [1000, 1016] (sc0, w1) = (sc, w) \<and>
     map drawn_group0 (rendered w) =
       [[(0, mvp_at real_mat4 (projection_of real_mat4 (800 / 600)) 1000)],
        [(0, mvp_at real_mat4 (projection_of real_mat4 (800 / 600)) 1016)]] \<and>
     pending w = 1"
proof -
  from stub_started obtain sc0 w1
    where m: "main real_mat4 (\<lambda>c. False) (\<lambda>c. False) stub_mesh stub_props empty_world = (Inr sc0, w1)"
    by blast
  obtain sc w where t: "run_ticks real_mat4 [1000, 1016] (sc0, w1) = (sc, w)"
    by (cases "run_ticks real_mat4 [1000, 1016] (sc0, w1)")
  have p0: "pending empty_world = 0" by (simp add: empty_world_def)
  have P: "projection_of real_mat4 (800 / 600) =
      projection_of real_mat4 (width (canvas stub_props) / height (canvas stub_props))"
    by (simp add: stub_props_def)
  have ni: "\<forall>c::call. \<not> (\<lambda>c. False) c" by simp
  from frames_in_order [OF mat4_lib_real_mat4 p0 m ni t P]
  have a: "map drawn_group0 (rendered w) =
       [[(0, mvp_at real_mat4 (projection_of real_mat4 (800 / 600)) 1000)],
        [(0, mvp_at real_mat4 (projection_of real_mat4 (800 / 600)) 1016)]]"
    and b: "pending w = 1"
    by (simp_all add: empty_world_def)
  from mat4_lib_real_mat4 p0 m ni t a b show ?thesis
    by (intro exI conjI)
qed

section \<open>What a tick leaves alone\<close>

text \<open>
  C4. After a construction that succeeded (main has returned, and none of its creation
  calls has failed without throwing), the vertex buffer holds the mesh and has the usage
  \<open>VERTEX\<close> only; the pipeline is a triangle list with back-face culling, depth write
  enabled, depth comparison less and the depth format depth24plus; the depth texture has
  that format. After any number of ticks, every GPU object main created (the vertex
  buffer, the pipeline, the depth texture, the uniform buffer, the bind group among them)
  is what it was, every buffer other than the uniform buffer holds what it held, the vertex
  buffer still holds the mesh, and the variables of main are what they were except for the
  colour view of the render pass descriptor.
\<close>

theorem resources_never_mutated:
  assumes "mat4_lib L" and "pending w0 = 0"
    and "main L thr inval arr p w0 = (Inr sc0, w1)" and "\<forall>c. \<not> inval c"
    and "run_ticks L ts (sc0, w1) = (sc, w)"
  shows "mem w1 (verticesBuffer sc0) = arr \<and> mem w (verticesBuffer sc0) = arr \<and>
     objects w1 (verticesBuffer sc0) = Some (Buffer (byteLength arr) [VERTEX] True) \<and>
     (\<exists>vm fm. objects w1 (pipeline sc0) = Some (RenderPipeline (pipeline_descriptor p vm fm)) \<and>
        topology (pipeline_descriptor p vm fm) = ''triangle-list'' \<and>
        cullMode (pipeline_descriptor p vm fm) = ''back'' \<and>
        depthWriteEnabled (pipeline_descriptor p vm fm) \<and>
        depthCompare (pipeline_descriptor p vm fm) = ''less'' \<and>
        depth_format (pipeline_descriptor p vm fm) = ''depth24plus'') \<and>
     objects w1 (depthTexture sc0) =
       Some (Texture (width (canvas p)) (height (canvas p)) ''depth24plus'' [RENDER_ATTACHMENT]) \<and>
     (\<exists>l. objects w1 (uniformBindGroup sc0) = Some (BindGroup l [(0, uniformBuffer sc0)])) \<and>
     verticesBuffer sc0 < next_id w1 \<and> pipeline sc0 < next_id w1 \<and>
     depthTexture sc0 < next_id w1 \<and> uniformBindGroup sc0 < next_id w1 \<and>
     (\<forall>i<next_id w1. objects w i = objects w1 i) \<and>
     (\<forall>b. b \<noteq> uniformBuffer sc0 \<longrightarrow> mem w b = mem w1 b) \<and>
     (\<exists>v. sc = sc0\<lparr>renderPassDescriptor := (renderPassDescriptor sc0)\<lparr>color_view := v\<rparr>\<rparr>)"
proof -
  note st = main_started [OF assms(3,4,2,1)]
  note eff = run_ticks_effect [OF assms(1) st(1), of ts, unfolded assms(5)]
  from st(1) obtain vm fm
    where pl: "objects w1 (pipeline sc0) = Some (RenderPipeline (pipeline_descriptor p vm fm))"
    by (auto simp: running_def Let_def)
  have 1: "\<exists>vm fm. objects w1 (pipeline sc0) = Some (RenderPipeline (pipeline_descriptor p vm fm)) \<and>
        topology (pipeline_descriptor p vm fm) = ''triangle-list'' \<and>
        cullMode (pipeline_descriptor p vm fm) = ''back'' \<and>
        depthWriteEnabled (pipeline_descriptor p vm fm) \<and>
        depthCompare (pipeline_descriptor p vm fm) = ''less'' \<and>
        depth_format (pipeline_descriptor p vm fm) = ''depth24plus''"
    using pl by (intro exI [of _ vm] exI [of _ fm]) (simp add: pipeline_descriptor_def)
  from st(1) have 2: "\<exists>l. objects w1 (uniformBindGroup sc0) = Some (BindGroup l [(0, uniformBuffer sc0)])"
    by (auto simp: running_def Let_def)
  from st(1) have 3: "mem w1 (verticesBuffer sc0) = arr"
      "objects w1 (verticesBuffer sc0) = Some (Buffer (byteLength arr) [VERTEX] True)"
      "objects w1 (depthTexture sc0) =
         Some (Texture (width (canvas p)) (height (canvas p)) ''depth24plus'' [RENDER_ATTACHMENT])"
      "verticesBuffer sc0 < next_id w1" "pipeline sc0 < next_id w1"
      "depthTexture sc0 < next_id w1" "uniformBindGroup sc0 < next_id w1"
      "verticesBuffer sc0 \<noteq> uniformBuffer sc0"
    by (simp_all add: running_def Let_def)
  from eff 3 have 4: "mem w (verticesBuffer sc0) = arr" by simp
  from eff have 5: "\<forall>i<next_id w1. objects w i = objects w1 i"
    and 6: "\<forall>b. b \<noteq> uniformBuffer sc0 \<longrightarrow> mem w b = mem w1 b"
    and 7: "\<exists>v. sc = sc0\<lparr>renderPassDescriptor := (renderPassDescriptor sc0)\<lparr>color_view := v\<rparr>\<rparr>"
    by simp_all
  from 1 2 3 4 5 6 7 show ?thesis by blast
qed

theorem resources_never_mutated_witness:
  "\<exists>sc0 w1 sc w.
     mat4_lib real_mat4 \<and> pending empty_world = 0 \<and>
     main real_mat4 (\<lambda>c. False) (\<lambda>c. False) stub_mesh stub_props empty_world = (Inr sc0, w1) \<and>
     (\<forall>c::call. \<not> (\<lambda>c. False) c) \<and>
     run_ticks real_mat4 [1000, 1016, 1033] (sc0, w1) = (sc, w) \<and>
     verticesBuffer sc0 < next_id w1 \<and> objects w (verticesBuffer sc0) = objects w1 (verticesBuffer sc0) \<and>
     verticesBuffer sc0 \<noteq> uniformBuffer sc0 \<and>
     mem w (verticesBuffer sc0) = stub_mesh \<and> mem w1 (verticesBuffer sc0) = stub_mesh"
proof -
  from stub_started obtain sc0 w1
    where m: "main real_mat4 (\<lambda>c. False) (\<lambda>c. False) stub_mesh stub_props empty_world = (Inr sc0, w1)"
    by blast
  obtain sc w where t: "run_ticks real_mat4 [1000, 1016, 1033] (sc0, w1) = (sc, w)"
    by (cases "run_ticks real_mat4 [1000, 1016, 1033] (sc0, w1)")
  have p0: "pending empty_world = 0" by (simp add: empty_world_def)
  have ni: "\<forall>c::call. \<not> (\<lambda>c. False) c" by simp
  have ne: "verticesBuffer sc0 \<noteq> uniformBuffer sc0"
    using main_started(1) [OF m ni p0 mat4_lib_real_mat4] by (simp add: running_def Let_def)
  from resources_never_mutated [OF mat4_lib_real_mat4 p0 m ni t]
  have "verticesBuffer sc0 < next_id w1 \<and>
     objects w (verticesBuffer sc0) = objects w1 (verticesBuffer sc0) \<and>
     mem w (verticesBuffer sc0) = stub_mesh \<and> mem w1 (verticesBuffer sc0) = stub_mesh"
    by blast
  with mat4_lib_real_mat4 p0 m ni t ne show ?thesis by blast
qed

section \<open>Failures of the initialisation\<close>




section \<open>The rotation axis over time\<close>

text \<open>
  C7 (counterexample). The claim says that a time that is a multiple of the divisor 5000
  gives the rotation axis of time 0. At \<open>Date.now() = 5000\<close> the code computes
  \<open>now = 1\<close> and the axis \<open>(sin 1, cos 1, 0)\<close>, which is not the axis \<open>(0, 1, 0)\<close> of
  time 0.
\<close>

theorem rotationAxis_5000_counterexample: "rotationAxis 5000 \<noteq> rotationAxis 0"
proof -
  have "0 < sin (1::real)"
    using pi_ge_two by (intro sin_gt_zero) auto
  then show ?thesis
    by (simp add: rotationAxis_def now_of_def vec3_fromValues_def)
qed

text \<open>
  C7 (amended). The time-to-angle mapping \<open>now = Date.now() / 5000\<close> has the period
  \<open>2 * pi * 5000\<close>: the rotation axis at time \<open>p\<close> is the axis at time 0 exactly when
  \<open>p\<close> is an integer multiple of \<open>2 * pi * 5000\<close>.
\<close>

theorem rotationAxis_period:
  "rotationAxis p = rotationAxis 0 \<longleftrightarrow> (\<exists>k::int. p = 2 * pi * 5000 * of_int k)"
proof -
  have "rotationAxis p = rotationAxis 0 \<longleftrightarrow> sin (p / 5000) = 0 \<and> cos (p / 5000) = 1"
    by (simp add: rotationAxis_def now_of_def vec3_fromValues_def)
  also have "\<dots> \<longleftrightarrow> cos (p / 5000) = 1"
    using cos_one_sin_zero [of "p / 5000"] by auto
  also have "\<dots> \<longleftrightarrow> (\<exists>k::int. p / 5000 = of_int k * 2 * pi)"
    by (rule cos_one_2pi_int)
  also have "\<dots> \<longleftrightarrow> (\<exists>k::int. p = 2 * pi * 5000 * of_int k)"
    by (auto simp: field_simps)
  finally show ?thesis .
qed

section \<open>The mesh layout\<close>

text \<open>
  C8. With the constants and the construction check of the mesh module as the spec
  describes them: a vertex array passes the construction exactly when its byte length
  is vertex count times stride, which is 36 times the stride, and is rejected at once
  otherwise; the vertex layout main declares has the stride \<open>cubeVertexSize\<close>, the
  float32x4 position at \<open>cubePositionOffset\<close> ends where the float32x2 uv at
  \<open>cubeUVOffset\<close> begins or before, and the uv ends within the stride.
\<close>

theorem cube_mesh_layout:
  "(byteLength d = cubeVertexCount * cubeVertexSize \<longrightarrow>
      mesh_construct d = Inr d \<and> byteLength d = 36 * cubeVertexSize) \<and>
   (byteLength d \<noteq> cubeVertexCount * cubeVertexSize \<longrightarrow>
      mesh_construct d = Inl (MeshSizeMismatch (byteLength d) (36 * cubeVertexSize))) \<and>
   arrayStride (pipeline_descriptor p vm fm) = cubeVertexSize \<and>
   attributes (pipeline_descriptor p vm fm) =
     [\<lparr> shaderLocation = 0, attr_offset = cubePositionOffset, attr_format = ''float32x4'' \<rparr>,
      \<lparr> shaderLocation = 1, attr_offset = cubeUVOffset, attr_format = ''float32x2'' \<rparr>] \<and>
   cubePositionOffset + format_size ''float32x4'' \<le> cubeUVOffset \<and>
   cubeUVOffset + format_size ''float32x2'' \<le> cubeVertexSize"
  by (simp add: mesh_construct_def cubeVertexCount_def pipeline_descriptor_def
      cubePositionOffset_def cubeUVOffset_def cubeVertexSize_def format_size_def)

text \<open>An array of 36 vertices of six floats passes; an array of 36 floats does not.\<close>

theorem cube_mesh_layout_witness:
  "byteLength (replicate 216 0) = cubeVertexCount * cubeVertexSize \<and>
   mesh_construct (replicate 216 0) = Inr (replicate 216 0) \<and>
   byteLength (replicate 36 0) \<noteq> cubeVertexCount * cubeVertexSize \<and>
   mesh_construct (replicate 36 0) = Inl (MeshSizeMismatch 144 864)"
proof -
  have a: "byteLength (replicate 216 0) = cubeVertexCount * cubeVertexSize"
    by (simp add: byteLength_def cubeVertexCount_def cubeVertexSize_def)
  have b: "byteLength (replicate 36 0) \<noteq> cubeVertexCount * cubeVertexSize"
    by (simp add: byteLength_def cubeVertexCount_def cubeVertexSize_def)
  from a b cube_mesh_layout [of "replicate 216 0"] cube_mesh_layout [of "replicate 36 0"]
  show ?thesis
    by (simp add: byteLength_def cubeVertexSize_def)
qed

section \<open>The two variants\<close>

text \<open>
  C9 (counterexample). If the second variant were the rendering program of the first with
  two other constants, it would request an animation frame wherever the first does: the
  two constants do not enter that. In the stub browser the first variant requests one
  frame, and one callback waits; the second variant requests none, and has created no
  GPU object.
\<close>

theorem variants_counterexample:
  "RequestAnimationFrame \<in> set (events (snd (index_ts real_mat4 stub_env stub_mesh empty_world))) \<and>
   pending (snd (index_ts real_mat4 stub_env stub_mesh empty_world)) = 1 \<and>
   RequestAnimationFrame \<notin> set (events (snd (index_ts_variant2 stub_env empty_world))) \<and>
   pending (snd (index_ts_variant2 stub_env empty_world)) = 0 \<and>
   next_id (snd (index_ts_variant2 stub_env empty_world)) = 0"
proof -
  have ok: "env_ok stub_env"
    by (simp add: env_ok_def handshake_ok_def stub_env_def all_calls_def)
  have p0: "pending empty_world = 0" by (simp add: empty_world_def)
  from index_ts_running [OF ok mat4_lib_real_mat4 p0, of stub_mesh]
  have 1: "RequestAnimationFrame \<in> set (events (snd (index_ts real_mat4 stub_env stub_mesh empty_world)))"
    and 2: "pending (snd (index_ts real_mat4 stub_env stub_mesh empty_world)) = 1"
    by (auto simp: empty_world_def)
  have 3: "index_ts_variant2 stub_env empty_world =
      (Inr (), emit ConsoleLog (emit (Configure ''bgra8unorm'' ''premultiplied'')
         (emit (Fetch ''/src/shaders/vertexPositionColor_frag.wgsl'')
            (emit (Fetch ''/src/shaders/basic_vert.wgsl'') empty_world))))"
    by (simp add: index_ts_variant2_def handshake_def stub_env_def main_variant2_def Let_def)
  from 1 2 show ?thesis
    unfolding 3 by (simp add: empty_world_def)
qed

text \<open>
  C9 (amended). The second variant makes the handshake of the first (the two fetches, the
  checks for WebGPU, canvas, adapter, device and context, the configuration of the
  context), fails in it with the errors of the first, and sizes the canvas from the client
  size instead of the window size. Its main only logs its arguments: it creates no GPU
  object, touches no buffer and no array, draws nothing and requests no animation frame.
  The rendering code with the camera distance 4 and the divisor 1000 is a comment, so the
  first variant is the only rendering program.
\<close>

theorem variant2_only_logs:
  "(case index_ts_variant2 e w0 of
      (r, w) \<Rightarrow>
        objects w = objects w0 \<and> mem w = mem w0 \<and> next_id w = next_id w0 \<and>
        js_heap w = js_heap w0 \<and> rendered w = rendered w0 \<and> pending w = pending w0 \<and>
        RequestAnimationFrame \<notin> set (drop (length (events w0)) (events w)) \<and>
        (r = Inr () \<longleftrightarrow> handshake_ok e) \<and>
        (handshake_ok e \<longrightarrow>
           events w = events w0 @ [Fetch ''/src/shaders/basic_vert.wgsl'',
             Fetch ''/src/shaders/vertexPositionColor_frag.wgsl'',
             Configure (getPreferredCanvasFormat e) ''premultiplied'', ConsoleLog]) \<and>
        (\<forall>err. r = Inl err \<longrightarrow> fst (index_ts L e arr w0) = Inl err))"
proof (cases "handshake_ok e")
  case True
  from handshake_is_ok [OF True] obtain vert frag
    where "index_ts_variant2 e w0 =
      main_variant2 vert frag
        (emit (Configure (getPreferredCanvasFormat e) ''premultiplied'')
           (emit (Fetch ''/src/shaders/vertexPositionColor_frag.wgsl'')
              (emit (Fetch ''/src/shaders/basic_vert.wgsl'') w0)))"
    unfolding index_ts_variant2_def by blast
  with True show ?thesis
    by (simp add: main_variant2_def)
next
  case False
  have "\<exists>err w. index_ts_variant2 e w0 = (Inl err, w) \<and> pending w = pending w0 \<and>
     rendered w = rendered w0 \<and> js_heap w = js_heap w0 \<and> objects w = objects w0 \<and>
     mem w = mem w0 \<and> next_id w = next_id w0 \<and>
     RequestAnimationFrame \<notin> set (drop (length (events w0)) (events w))"
    unfolding index_ts_variant2_def using handshake_not_ok [OF False] by blast
  then obtain err w where v: "index_ts_variant2 e w0 = (Inl err, w)" "pending w = pending w0"
     "rendered w = rendered w0" "js_heap w = js_heap w0" "objects w = objects w0"
     "mem w = mem w0" "next_id w = next_id w0"
     "RequestAnimationFrame \<notin> set (drop (length (events w0)) (events w))"
    by blast
  have "\<exists>err'. fst (index_ts_variant2 e w0) = Inl err' \<and> fst (index_ts L e arr w0) = Inl err'"
    unfolding index_ts_variant2_def index_ts_def by (rule handshake_same_error [OF False])
  with v(1) have "fst (index_ts L e arr w0) = Inl err" by simp
  with v False show ?thesis by simp
qed

theorem variant2_only_logs_witness:
  "handshake_ok stub_env \<and>
   index_ts_variant2 stub_env empty_world =
     (Inr (), empty_world\<lparr>events := [Fetch ''/src/shaders/basic_vert.wgsl'',
        Fetch ''/src/shaders/vertexPositionColor_frag.wgsl'',
        Configure ''bgra8unorm'' ''premultiplied'', ConsoleLog]\<rparr>) \<and>
   fst (index_ts_variant2 (stub_env\<lparr>getContext := False\<rparr>) empty_world) =
     Inl (Error ''Context not found'') \<and>
   fst (index_ts real_mat4 (stub_env\<lparr>getContext := False\<rparr>) stub_mesh empty_world) =
     Inl (Error ''Context not found'')"
proof -
  have hs: "handshake_ok stub_env"
    by (simp add: handshake_ok_def stub_env_def)
  obtain r w where v: "index_ts_variant2 stub_env empty_world = (r, w)"
    by (cases "index_ts_variant2 stub_env empty_world")
  from variant2_only_logs
    [where e = stub_env and ?w0.0 = empty_world and L = real_mat4 and arr = stub_mesh] hs v
  have "r = Inr ()" "objects w = objects empty_world" "mem w = mem empty_world"
    "next_id w = next_id empty_world" "js_heap w = js_heap empty_world"
    "rendered w = rendered empty_world" "pending w = pending empty_world"
    "events w = events empty_world @ [Fetch ''/src/shaders/basic_vert.wgsl'',
        Fetch ''/src/shaders/vertexPositionColor_frag.wgsl'',
        Configure (getPreferredCanvasFormat stub_env) ''premultiplied'', ConsoleLog]"
    by simp_all
  then have a: "index_ts_variant2 stub_env empty_world =
     (Inr (), empty_world\<lparr>events := [Fetch ''/src/shaders/basic_vert.wgsl'',
        Fetch ''/src/shaders/vertexPositionColor_frag.wgsl'',
        Configure ''bgra8unorm'' ''premultiplied'', ConsoleLog]\<rparr>)"
    unfolding v by (simp add: empty_world_def stub_env_def)
  have b: "fst (index_ts_variant2 (stub_env\<lparr>getContext := False\<rparr>) empty_world) =
     Inl (Error ''Context not found'')"
    by (simp add: index_ts_variant2_def handshake_def stub_env_def Let_def)
  obtain r' w' where v': "index_ts_variant2 (stub_env\<lparr>getContext := False\<rparr>) empty_world = (r', w')"
    by (cases "index_ts_variant2 (stub_env\<lparr>getContext := False\<rparr>) empty_world")
  from variant2_only_logs
    [where e = "stub_env\<lparr>getContext := False\<rparr>" and ?w0.0 = empty_world and L = real_mat4
      and arr = stub_mesh] v' b
  have c: "fst (index_ts real_mat4 (stub_env\<lparr>getContext := False\<rparr>) stub_mesh empty_world) =
     Inl (Error ''Context not found'')"
    by simp
  from hs a b c show ?thesis by (intro conjI)
qed

section \<open>The single matrix buffer\<close>

text \<open>
  C10. In any state the loop reaches, two successive calls of getTransformationMatrix
  return the same reference, the array \<open>modelViewProjectionMatrix\<close> that main allocated
  (it exists before the call, so the call allocates no array for its result). After the
  first call the array holds the matrix of the first time, after the second call the
  matrix of the second time: the earlier result is overwritten. In the loop, the upload
  of a tick carries the matrix of that tick, taken from the array at the call of
  \<^verbatim>\<open>writeBuffer\<close>; after the next tick the same array holds the next tick's matrix.
\<close>

theorem single_matrix_buffer:
  assumes "mat4_lib L" and "pending w0 = 0"
    and "main L thr inval arr p w0 = (Inr sc0, w1)"
    and "run_ticks L ts (sc0, w1) = (sc, w)"
    and "getTransformationMatrix L (projectionMatrix sc) (modelViewProjectionMatrix sc)
           t (js_heap w) = (r1, h1)"
    and "getTransformationMatrix L (projectionMatrix sc) (modelViewProjectionMatrix sc)
           t' h1 = (r2, h2)"
    and "refresh L t (sc, w) = (sca, wa)"
    and "refresh L t' (sca, wa) = (scb, wb)"
  shows "r1 = modelViewProjectionMatrix sc0 \<and> r2 = r1 \<and> r1 < fresh (js_heap w) \<and>
     cells h1 r1 = mvp_at L (projection_of L (width (canvas p) / height (canvas p))) t \<and>
     cells h2 r1 = mvp_at L (projection_of L (width (canvas p) / height (canvas p))) t' \<and>
     QueueWriteBuffer (uniformBuffer sc0) 0
       (mvp_at L (projection_of L (width (canvas p) / height (canvas p))) t) \<in> set (events wa) \<and>
     cells (js_heap wa) r1 = mvp_at L (projection_of L (width (canvas p) / height (canvas p))) t \<and>
     cells (js_heap wb) r1 = mvp_at L (projection_of L (width (canvas p) / height (canvas p))) t'"
proof -
  let ?P = "projectionMatrix sc" and ?M = "modelViewProjectionMatrix sc"
  let ?A = "projection_of L (width (canvas p) / height (canvas p))"
  have run: "loop_running L p (sc, w)"
    by (rule reachable_loop_running [OF assms(1,2,3,4)])
  from reachable_scope [OF assms(1,2,3,4)]
  have sc: "?M = modelViewProjectionMatrix sc0" "uniformBuffer sc = uniformBuffer sc0"
    by auto
  from run have h: "?P < fresh (js_heap w)" "?M < fresh (js_heap w)" "?P \<noteq> ?M"
    "length (cells (js_heap w) ?M) = 16" "cells (js_heap w) ?P = ?A"
    by (simp_all add: loop_running_def Let_def)
  from assms(5) have r1: "r1 = ?M" and h1: "h1 = snd (getTransformationMatrix L ?P ?M t (js_heap w))"
    using getTransformationMatrix_ref [of L ?P ?M t "js_heap w"] by simp_all
  from assms(6) have r2: "r2 = ?M" and h2: "h2 = snd (getTransformationMatrix L ?P ?M t' h1)"
    using getTransformationMatrix_ref [of L ?P ?M t' h1] by simp_all
  have c1: "cells h1 ?M = mvp_at L ?A t"
    unfolding h1 using loop_running_value [OF assms(1) run, of t] by simp
  have f1: "fresh h1 = Suc (fresh (js_heap w))"
    unfolding h1 by (rule getTransformationMatrix_fresh)
  have p1: "cells h1 ?P = ?A"
    unfolding h1 using getTransformationMatrix_frame [OF h(1) h(3), of L ?P t] h(5) by simp
  have l1: "length (cells h1 ?M) = 16"
    unfolding h1 using getTransformationMatrix_length [OF h(2), of L ?P t] h(4) by simp
  have c2: "cells h2 ?M = mvp_at L ?A t'"
    unfolding h2
    using getTransformationMatrix_cells [OF assms(1), of ?P h1 ?M t'] h(1,2,3) f1 l1 p1
    by simp
  note fa = frame_core_effect [OF assms(1) run, of t]
  have runa: "loop_running L p (sca, wa)"
    using refresh_loop_running [OF assms(1) run, of t] assms(7) by simp
  note fb = frame_core_effect [OF assms(1) runa, of t']
  from fa(1) assms(7) have sca: "modelViewProjectionMatrix sca = ?M" by simp
  have ea: "QueueWriteBuffer (uniformBuffer sc0) 0 (mvp_at L ?A t) \<in> set (events wa)"
    using fa(2) assms(7) by (simp add: tick_events_def sc)
  have ca: "cells (js_heap wa) ?M = mvp_at L ?A t"
    using fa(5) assms(7) by simp
  have cb: "cells (js_heap wb) ?M = mvp_at L ?A t'"
    using fb(5) assms(8) by (simp add: sca)
  from r1 r2 sc h(2) c1 c2 ea ca cb show ?thesis by simp
qed

theorem single_matrix_buffer_witness:
  "\<exists>sc0 w1 sc w r1 h1 r2 h2 sca wa scb wb.
     mat4_lib real_mat4 \<and> pending empty_world = 0 \<and>
     main real_mat4 (\<lambda>c. False) (\<lambda>c. False) stub_mesh stub_props empty_world = (Inr sc0, w1) \<and>
     run_ticks real_mat4 [1000] (sc0, w1) = (sc, w) \<and>
     getTransformationMatrix real_mat4 (projectionMatrix sc) (modelViewProjectionMatrix sc)
       1016 (js_heap w) = (r1, h1) \<and>
     getTransformationMatrix real_mat4 (projectionMatrix sc) (modelViewProjectionMatrix sc)
       1033 h1 = (r2, h2) \<and>
     refresh real_mat4 1016 (sc, w) = (sca, wa) \<and>
     refresh real_mat4 1033 (sca, wa) = (scb, wb) \<and>
     r1 = modelViewProjectionMatrix sc0 \<and> r2 = r1 \<and> r1 < fresh (js_heap w) \<and>
     cells h1 r1 = mvp_at real_mat4 (projection_of real_mat4 (800 / 600)) 1016 \<and>
     cells h2 r1 = mvp_at real_mat4 (projection_of real_mat4 (800 / 600)) 1033 \<and>
     cells (js_heap wb) r1 = mvp_at real_mat4 (projection_of real_mat4 (800 / 600)) 1033"
proof -
  from stub_started obtain sc0 w1
    where m: "main real_mat4 (\<lambda>c. False) (\<lambda>c. False) stub_mesh stub_props empty_world = (Inr sc0, w1)"
    by blast
  obtain sc w where t: "run_ticks real_mat4 [1000] (sc0, w1) = (sc, w)"
    by (cases "run_ticks real_mat4 [1000] (sc0, w1)")
  obtain r1 h1 where g1: "getTransformationMatrix real_mat4 (projectionMatrix sc)
      (modelViewProjectionMatrix sc) 1016 (js_heap w) = (r1, h1)"
    by (cases "getTransformationMatrix real_mat4 (projectionMatrix sc)
      (modelViewProjectionMatrix sc) 1016 (js_heap w)")
  obtain r2 h2 where g2: "getTransformationMatrix real_mat4 (projectionMatrix sc)
      (modelViewProjectionMatrix sc) 1033 h1 = (r2, h2)"
    by (cases "getTransformationMatrix real_mat4 (projectionMatrix sc)
      (modelViewProjectionMatrix sc) 1033 h1")
  obtain sca wa where fa: "refresh real_mat4 1016 (sc, w) = (sca, wa)"
    by (cases "refresh real_mat4 1016 (sc, w)")
  obtain scb wb where fb: "refresh real_mat4 1033 (sca, wa) = (scb, wb)"
    by (cases "refresh real_mat4 1033 (sca, wa)")
  have p0: "pending empty_world = 0" by (simp add: empty_world_def)
  from single_matrix_buffer [OF mat4_lib_real_mat4 p0 m t g1 g2 fa fb]
  have "r1 = modelViewProjectionMatrix sc0 \<and> r2 = r1 \<and> r1 < fresh (js_heap w) \<and>
     cells h1 r1 = mvp_at real_mat4 (projection_of real_mat4 (800 / 600)) 1016 \<and>
     cells h2 r1 = mvp_at real_mat4 (projection_of real_mat4 (800 / 600)) 1033 \<and>
     cells (js_heap wb) r1 = mvp_at real_mat4 (projection_of real_mat4 (800 / 600)) 1033"
    by (auto simp: stub_props_def)
  with mat4_lib_real_mat4 p0 m t g1 g2 fa fb show ?thesis by blast
qed

end
